theory Spec2Isabelle
  imports Complex_Main "HOL-Library.AList"
begin

section \<open>Data model (src/backtest/engine.ts, types.ts, config.ts; bot.ts, db.ts)\<close>

text \<open>
  Numbers of the source are IEEE doubles. Prices, share counts and balances are modelled
  as exact reals, timestamps (milliseconds) and \<open>Date\<close> values as integers, array
  indices as naturals. Rounding, NaN and the infinities of division by zero are outside
  this model; wherever a theorem depends on a divisor being non-zero this is a hypothesis.
  Field names shared by several records are written qualified
  (\<open>PriceTick.tokenId\<close>, \<open>LadderState.tokenId\<close>, ...).
\<close>

datatype Side = UP | DOWN

datatype StepPhase = Buy | Sell

datatype LadderStatus = Active | Completed | Stopped

datatype ExitReason =
  PROFIT_TARGET | STOP_LOSS | MARKET_RESOLVED | TIME_EXIT | LADDER_STEP_SELL | LADDER_STOP_LOSS

datatype SizeType = Percent | Fixed

record LadderStepSideConfig =
  triggerPrice :: real
  sizeType :: SizeType
  sizeValue :: real

text \<open>The step field \<open>id\<close> of the source is \<open>stepId\<close> here (\<open>id\<close> is the identity of HOL).\<close>

record LadderStep =
  stepId :: string
  stopLoss :: real
  buy :: LadderStepSideConfig
  sell :: LadderStepSideConfig
  enabled :: bool

subsection \<open>Records of the live bot (bot.ts, db.ts)\<close>

text \<open>
  A row of the table \<open>trades\<close> of db.ts, without its three date columns, which no exit
  reads; \<open>exit_price\<close> and \<open>pnl\<close> are \<open>NULL\<close> until the trade is closed. A \<open>Position\<close>
  of bot.ts. Of \<open>BotConfig\<close>, what the exits read; \<open>profitTarget\<close> is what
  \<open>getProfitTarget()\<close> returns.
\<close>

datatype TradeStatus = OPEN | STOPPED | RESOLVED

record Trade =
  market_slug :: string
  token_id :: string
  side :: Side
  entry_price :: real
  exit_price :: "real option"
  shares :: real
  cost_basis :: real
  status :: TradeStatus
  pnl :: "real option"

record Position =
  tradeId :: nat
  tokenId :: string
  shares :: real
  entryPrice :: real
  side :: Side
  marketSlug :: string
  marketEndDate :: int
  isLadder :: bool

record BotConfig =
  paperTrading :: bool
  compoundLimit :: real
  baseBalance :: real
  profitTarget :: real

subsection \<open>Records of the replay engine\<close>

text \<open>
  \<open>riskMode\<close> is a string in the source (\<open>"normal" | "ladder" | string\<close>);
  an absent \<open>ladderSteps\<close> is the empty list (\<open>config.ladderSteps ?? []\<close>).
\<close>

record BacktestConfig =
  entryThreshold :: real
  maxEntryPrice :: real
  stopLoss :: real
  maxSpread :: real
  timeWindowMs :: int
  profitTarget :: real
  startingBalance :: real
  slippage :: real
  compoundLimit :: real
  baseBalance :: real
  riskMode :: string
  ladderSteps :: "LadderStep list"

record PriceTick =
  timestamp :: int
  tokenId :: string
  marketSlug :: string
  bestBid :: real
  bestAsk :: real
  midPrice :: real

record HistoricalMarket =
  slug :: string
  question :: string
  startDate :: int
  endDate :: int
  upTokenId :: string
  downTokenId :: string
  outcome :: "Side option"
  priceTicks :: "PriceTick list"

record SimulatedPosition =
  tokenId :: string
  marketSlug :: string
  side :: Side
  shares :: real
  entryPrice :: real
  entryTimestamp :: int

record BacktestTrade =
  marketSlug :: string
  tokenId :: string
  side :: Side
  entryPrice :: real
  exitPrice :: real
  shares :: real
  entryTimestamp :: int
  exitTimestamp :: int
  exitReason :: ExitReason
  pnl :: real
  ladderStepId :: "string option"

record EquityPoint =
  timestamp :: int
  balance :: real

record DrawdownPoint =
  timestamp :: int
  drawdown :: real

text \<open>\<open>skippedReasons\<close> is a JS \<open>Map\<close>: an association list in insertion order.\<close>

record LadderState =
  tokenId :: string
  side :: Side
  marketSlug :: string
  marketEndDate :: int
  currentStepIndex :: nat
  currentStepPhase :: StepPhase
  completedSteps :: "string list"
  skippedSteps :: "string list"
  skippedReasons :: "(string \<times> string) list"
  totalShares :: real
  totalCostBasis :: real
  averageEntryPrice :: real
  totalSharesSold :: real
  totalSellProceeds :: real
  ladderStartTime :: int
  lastStepTime :: int
  lastStepPrice :: real
  needsRecovery :: bool
  status :: LadderStatus

text \<open>
  \<open>profitFactor\<close> may be \<open>Infinity\<close> in the source, so it has a type of its own.
\<close>

datatype JsNumber = Finite real | Infinity

record PerformanceMetrics =
  totalTrades :: nat
  wins :: nat
  losses :: nat
  winRate :: real
  totalPnL :: real
  maxDrawdown :: real
  maxDrawdownPercent :: real
  sharpeRatio :: real
  profitFactor :: JsNumber
  avgWin :: real
  avgLoss :: real
  avgTradeReturn :: real
  maxConsecutiveWins :: nat
  maxConsecutiveLosses :: nat
  expectancy :: real
  returnOnCapital :: real

record BacktestResult =
  config :: BacktestConfig
  metrics :: PerformanceMetrics
  trades :: "BacktestTrade list"
  equityCurve :: "EquityPoint list"
  drawdownCurve :: "DrawdownPoint list"
  savedProfit :: real
  finalBalance :: real

subsection \<open>State of the live bot\<close>

text \<open>
  The \<open>LadderState\<close> of bot.ts has the fields of the replay engine's and \<open>tradeIds\<close>, the
  rows of the table that belong to the ladder.

  \<open>Bot\<close> holds what the exits of bot.ts read or write: of \<open>this.state\<close> the fields
  \<open>balance\<close>, \<open>savedProfit\<close>, \<open>positions\<close>, \<open>pendingExits\<close> and \<open>ladderMarketLocks\<close>; the
  \<open>Position\<close> and \<open>LadderState\<close> objects, which the exits receive by reference and
  mutate, in two stores indexed by reference (\<open>positions\<close> maps a token to the reference of
  its position); and the table of db.ts with the last row id it has given out. Logging and
  the columns and tables that only \<open>persistLadderState\<close>, \<open>markAsLadderTrade\<close> and the
  persisted copy of the market locks write are left out.
\<close>

record BotLadderState = LadderState +
  tradeIds :: "nat list"

record Bot =
  balance :: real
  savedProfit :: real
  positions :: "string \<rightharpoonup> nat"
  pendingExits :: "string set"
  ladderMarketLocks :: "string set"
  positionHeap :: "nat \<Rightarrow> Position"
  ladderHeap :: "nat \<Rightarrow> BotLadderState"
  tradesTable :: "nat \<rightharpoonup> Trade"
  lastInsertRowid :: nat


datatype Suspension =
    StopLossSell string nat
  | StopLossBalance string
  | TakeProfitSell string nat
  | TakeProfitBalance string
  | LadderSellSell string nat LadderStep real real
  | LadderSellBalance string nat LadderStep real
  | LadderStopSell string nat real
  | LadderStopBalance string nat

datatype Status = Awaiting Suspension | Done | Rejected



subsection \<open>State of the replay engine\<close>

text \<open>
  The mutable fields of \<open>BacktestEngine\<close>. The configuration is immutable and is passed
  to every function. \<open>Date.now()\<close> is an input of the engine: the \<open>n\<close>-th call returns
  \<open>clk n\<close> for a clock \<open>clk :: nat \<Rightarrow> int\<close> given from outside, and \<open>nowCalls\<close> counts
  the calls made so far.
\<close>

record Engine =
  balance :: real
  savedProfit :: real
  position :: "SimulatedPosition option"
  ladderState :: "LadderState option"
  ladderMarketLocks :: "string set"
  trades :: "BacktestTrade list"
  equityCurve :: "EquityPoint list"
  peakBalance :: real
  lastTrade :: "BacktestTrade option"
  currentMarket :: "HistoricalMarket option"
  nowCalls :: nat

section \<open>The engine's methods\<close>

text \<open>
  A \<open>LadderState\<close> object handed to a method is always the object held in
  \<open>this.ladderState\<close>; the model passes its value and stores the mutated value back
  into the engine. The guards \<open>if (!ladderState.currentStepPhase)\<close> and
  \<open>currentStepPhase ?? "buy"\<close> never fire on a value of type \<open>StepPhase\<close>.
\<close>

definition dateNow :: "(nat \<Rightarrow> int) \<Rightarrow> Engine \<Rightarrow> int \<times> Engine" where
  "dateNow clk s = (clk (nowCalls s), s\<lparr> nowCalls := Suc (nowCalls s) \<rparr>)"

definition checkCompoundLimit :: "BacktestConfig \<Rightarrow> Engine \<Rightarrow> Engine" where
  "checkCompoundLimit cfg s =
     (if compoundLimit cfg \<le> 0 then s
      else if Engine.balance s \<le> compoundLimit cfg then s
      else s\<lparr> savedProfit := savedProfit s + (Engine.balance s - baseBalance cfg),
              Engine.balance := baseBalance cfg \<rparr>)"

definition executeEntry :: "BacktestConfig \<Rightarrow> PriceTick \<Rightarrow> HistoricalMarket \<Rightarrow> Side \<Rightarrow> Engine \<Rightarrow> Engine" where
  "executeEntry cfg tick market sd s =
     (let ePrice = min (bestAsk tick * (1 + slippage cfg)) 0.99;
          nShares = Engine.balance s / ePrice
      in s\<lparr> position := Some \<lparr> SimulatedPosition.tokenId = PriceTick.tokenId tick,
                                 SimulatedPosition.marketSlug = slug market,
                                 SimulatedPosition.side = sd,
                                 SimulatedPosition.shares = nShares,
                                 SimulatedPosition.entryPrice = ePrice,
                                 SimulatedPosition.entryTimestamp = PriceTick.timestamp tick \<rparr>,
              Engine.balance := 0 \<rparr>)"

definition executeExit :: "BacktestConfig \<Rightarrow> real \<Rightarrow> int \<Rightarrow> ExitReason \<Rightarrow> Engine \<Rightarrow> Engine" where
  "executeExit cfg price ts reason s =
     (case position s of
        None \<Rightarrow> s
      | Some p \<Rightarrow>
         (let finalExitPrice =
                (if reason = STOP_LOSS then max (price * (1 - slippage cfg)) 0.01
                 else price);
              tradePnl = (finalExitPrice - SimulatedPosition.entryPrice p) * SimulatedPosition.shares p;
              trade = \<lparr> BacktestTrade.marketSlug = SimulatedPosition.marketSlug p,
                        BacktestTrade.tokenId = SimulatedPosition.tokenId p,
                        BacktestTrade.side = SimulatedPosition.side p,
                        BacktestTrade.entryPrice = SimulatedPosition.entryPrice p,
                        exitPrice = finalExitPrice,
                        BacktestTrade.shares = SimulatedPosition.shares p,
                        BacktestTrade.entryTimestamp = SimulatedPosition.entryTimestamp p,
                        exitTimestamp = ts,
                        exitReason = reason,
                        pnl = tradePnl,
                        ladderStepId = None \<rparr>;
              proceeds = finalExitPrice * SimulatedPosition.shares p;
              s1 = s\<lparr> trades := trades s @ [trade], lastTrade := Some trade,
                      Engine.balance := proceeds \<rparr>;
              s2 = s1\<lparr> equityCurve := equityCurve s1 @
                        [\<lparr> EquityPoint.timestamp = ts,
                           EquityPoint.balance = Engine.balance s1 \<rparr>] \<rparr>;
              s3 = (if Engine.balance s2 > peakBalance s2
                    then s2\<lparr> peakBalance := Engine.balance s2 \<rparr> else s2);
              s4 = s3\<lparr> position := None \<rparr>
          in checkCompoundLimit cfg s4))"

definition checkStopLoss :: "BacktestConfig \<Rightarrow> PriceTick \<Rightarrow> Engine \<Rightarrow> Engine" where
  "checkStopLoss cfg tick s =
     (if position s = None then s
      else let currentBid = bestBid tick in
        if currentBid \<le> BacktestConfig.stopLoss cfg
        then executeExit cfg currentBid (PriceTick.timestamp tick) STOP_LOSS s
        else s)"

definition checkEntry :: "BacktestConfig \<Rightarrow> PriceTick \<Rightarrow> HistoricalMarket \<Rightarrow> Engine \<Rightarrow> Engine" where
  "checkEntry cfg tick market s =
     (let now = PriceTick.timestamp tick;
          marketEndTime = endDate market;
          timeRemaining = marketEndTime - now
      in if timeRemaining \<le> 0 \<or> timeRemaining > timeWindowMs cfg then s
      else let isUpToken = (PriceTick.tokenId tick = upTokenId market);
               sd = (if isUpToken then UP else DOWN);
               spread = bestAsk tick - bestBid tick
      in if spread > maxSpread cfg then s
      else let askPrice = bestAsk tick
      in if askPrice < entryThreshold cfg \<or> askPrice > maxEntryPrice cfg then s
      else if askPrice \<ge> profitTarget cfg then s
      else if (case lastTrade s of
                 None \<Rightarrow> False
               | Some lt \<Rightarrow> BacktestTrade.marketSlug lt = slug market
                            \<and> BacktestTrade.side lt = sd \<and> pnl lt > 0) then s
      else executeEntry cfg tick market sd s)"

definition closePositionAtExpiry :: "BacktestConfig \<Rightarrow> HistoricalMarket \<Rightarrow> Engine \<Rightarrow> Engine" where
  "closePositionAtExpiry cfg market s =
     (case position s of
        None \<Rightarrow> s
      | Some p \<Rightarrow>
         (let price =
                (if outcome market = Some (SimulatedPosition.side p) then profitTarget cfg
                 else if outcome market \<noteq> None then 0.01
                 else profitTarget cfg)
          in executeExit cfg price (endDate market) MARKET_RESOLVED s))"

section \<open>Ladder step selection\<close>

function (domintros) getActiveStep :: "LadderState \<Rightarrow> LadderStep list \<Rightarrow> LadderStep option \<times> LadderState" where
  "getActiveStep ls steps =
     (if currentStepIndex ls \<ge> length steps then (None, ls)
      else let step = steps ! currentStepIndex ls in
        if \<not> enabled step
          then getActiveStep (ls\<lparr> currentStepIndex := currentStepIndex ls + 1 \<rparr>) steps
        else if stepId step \<in> set (completedSteps ls)
          then getActiveStep (ls\<lparr> currentStepIndex := currentStepIndex ls + 1 \<rparr>) steps
        else if stepId step \<in> set (skippedSteps ls)
          then getActiveStep (ls\<lparr> currentStepIndex := currentStepIndex ls + 1 \<rparr>) steps
        else (Some step, ls))"
  by pat_completeness auto
termination
  by (relation "measure (\<lambda>(ls, steps). length steps - currentStepIndex ls)") auto

declare getActiveStep.simps [simp del]

text \<open>
  The \<open>while\<close> loop of \<open>getActiveStopLossStep\<close>, from index \<open>index\<close>; \<open>None\<close> when
  it runs off the end of the steps. The fallback \<open>for\<close> loop scans from the last step down.
\<close>

function stopLossScan :: "LadderState \<Rightarrow> LadderStep list \<Rightarrow> nat \<Rightarrow> LadderStep option" where
  "stopLossScan ls steps index =
     (if index < length steps then
        (let step = steps ! index in
           if \<not> enabled step then stopLossScan ls steps (index + 1)
           else if stepId step \<in> set (completedSteps ls) \<or> stepId step \<in> set (skippedSteps ls)
             then stopLossScan ls steps (index + 1)
           else Some step)
      else None)"
  by pat_completeness auto
termination
  by (relation "measure (\<lambda>(ls, steps, index). length steps - index)") auto

declare stopLossScan.simps [simp del]

definition getActiveStopLossStep :: "LadderState \<Rightarrow> LadderStep list \<Rightarrow> LadderStep option" where
  "getActiveStopLossStep ls steps =
     (case stopLossScan ls steps (currentStepIndex ls) of
        Some step \<Rightarrow> Some step
      | None \<Rightarrow> List.find enabled (rev steps))"

definition initializeLadderState :: "int \<Rightarrow> string \<Rightarrow> Side \<Rightarrow> string \<Rightarrow> int \<Rightarrow> LadderState" where
  "initializeLadderState now tok sd mslug endd =
     \<lparr> LadderState.tokenId = tok,
       LadderState.side = sd,
       LadderState.marketSlug = mslug,
       marketEndDate = endd,
       currentStepIndex = 0,
       currentStepPhase = Buy,
       completedSteps = [],
       skippedSteps = [],
       skippedReasons = [],
       totalShares = 0,
       totalCostBasis = 0,
       averageEntryPrice = 0,
       totalSharesSold = 0,
       totalSellProceeds = 0,
       ladderStartTime = now,
       lastStepTime = now,
       lastStepPrice = 0,
       needsRecovery = False,
       status = Active \<rparr>"

definition resetLadderState :: "int \<Rightarrow> LadderState \<Rightarrow> LadderState" where
  "resetLadderState now ls =
     ls\<lparr> currentStepIndex := 0,
         currentStepPhase := Buy,
         completedSteps := [],
         skippedSteps := [],
         skippedReasons := [],
         totalShares := 0,
         totalCostBasis := 0,
         averageEntryPrice := 0,
         totalSharesSold := 0,
         totalSellProceeds := 0,
         lastStepTime := now,
         lastStepPrice := 0,
         needsRecovery := True,
         status := Active \<rparr>"

definition skipLadderStep :: "LadderState \<Rightarrow> string \<Rightarrow> string \<Rightarrow> LadderState" where
  "skipLadderStep ls sid reason =
     ls\<lparr> skippedSteps := skippedSteps ls @ [sid],
         skippedReasons := AList.update sid reason (skippedReasons ls) \<rparr>"

definition calculateStepSize ::
  "StepPhase \<Rightarrow> LadderStepSideConfig \<Rightarrow> LadderState \<Rightarrow> real \<Rightarrow> real \<Rightarrow> real" where
  "calculateStepSize sd stepConfig ls availableBalance currentPrice =
     (if sd = Buy then
        (if sizeType stepConfig = Percent then availableBalance * (sizeValue stepConfig / 100)
         else min (sizeValue stepConfig) availableBalance)
      else let remainingShares = totalShares ls - totalSharesSold ls in
        if sizeType stepConfig = Percent then remainingShares * (sizeValue stepConfig / 100)
        else min (sizeValue stepConfig / currentPrice) remainingShares)"

definition getOpenLadderShares :: "LadderState \<Rightarrow> real" where
  "getOpenLadderShares ls = max 0 (totalShares ls - totalSharesSold ls)"

definition recordLadderTrade :: "BacktestTrade \<Rightarrow> Engine \<Rightarrow> Engine" where
  "recordLadderTrade trade s =
     (let s1 = s\<lparr> trades := trades s @ [trade], lastTrade := Some trade \<rparr>;
          s2 = s1\<lparr> equityCurve := equityCurve s1 @
                    [\<lparr> EquityPoint.timestamp = exitTimestamp trade,
                       EquityPoint.balance = Engine.balance s1 \<rparr>] \<rparr>
      in if Engine.balance s2 > peakBalance s2
         then s2\<lparr> peakBalance := Engine.balance s2 \<rparr> else s2)"

definition executeLadderBuyStep ::
  "BacktestConfig \<Rightarrow> PriceTick \<Rightarrow> LadderState \<Rightarrow> LadderStep \<Rightarrow> Engine \<Rightarrow> Engine" where
  "executeLadderBuyStep cfg tick ls step s =
     (if stepId step \<in> set (completedSteps ls) then s\<lparr> ladderState := Some ls \<rparr>
      else if stepId step \<in> set (skippedSteps ls) then s\<lparr> ladderState := Some ls \<rparr>
      else let availableBalance = Engine.balance s;
               buyAmount = calculateStepSize Buy (buy step) ls availableBalance (bestAsk tick)
      in if buyAmount < 1 then
           (let ls1 = skipLadderStep ls (stepId step) ''insufficient_balance''
            in s\<lparr> ladderState := Some (ls1\<lparr> currentStepIndex := currentStepIndex ls1 + 1,
                                            currentStepPhase := Buy \<rparr>) \<rparr>)
      else let ePrice = min (bestAsk tick * (1 + slippage cfg)) 0.99;
               nShares = buyAmount / ePrice;
               ls1 = ls\<lparr> totalShares := totalShares ls + nShares,
                         totalCostBasis := totalCostBasis ls + buyAmount \<rparr>;
               ls2 = ls1\<lparr> averageEntryPrice := totalCostBasis ls1 / totalShares ls1,
                           lastStepTime := PriceTick.timestamp tick,
                           lastStepPrice := bestAsk tick \<rparr>
      in s\<lparr> Engine.balance := Engine.balance s - buyAmount,
              ladderState := Some (ls2\<lparr> currentStepPhase := Sell \<rparr>) \<rparr>)"

definition executeLadderSellStep ::
  "BacktestConfig \<Rightarrow> PriceTick \<Rightarrow> LadderState \<Rightarrow> LadderStep \<Rightarrow> Engine \<Rightarrow> Engine" where
  "executeLadderSellStep cfg tick ls step s =
     (if stepId step \<in> set (completedSteps ls) then s\<lparr> ladderState := Some ls \<rparr>
      else if stepId step \<in> set (skippedSteps ls) then s\<lparr> ladderState := Some ls \<rparr>
      else let remainingShares = totalShares ls - totalSharesSold ls;
               sellShares = calculateStepSize Sell (sell step) ls 0 (bestBid tick)
      in if sellShares < 0.01 \<or> remainingShares < 0.01 then
           (let ls1 = skipLadderStep ls (stepId step) ''insufficient_shares''
            in s\<lparr> ladderState := Some (ls1\<lparr> currentStepIndex := currentStepIndex ls1 + 1,
                                            currentStepPhase := Buy \<rparr>) \<rparr>)
      else let actualSellShares = min sellShares remainingShares;
               proceeds = actualSellShares * bestBid tick;
               costBasisPortion =
                 (if totalShares ls > 0
                  then (actualSellShares / totalShares ls) * totalCostBasis ls else 0);
               tradePnl = proceeds - costBasisPortion;
               ls1 = ls\<lparr> totalSharesSold := totalSharesSold ls + actualSellShares,
                         totalSellProceeds := totalSellProceeds ls + proceeds \<rparr>;
               s1 = s\<lparr> Engine.balance := Engine.balance s + proceeds \<rparr>;
               trade = \<lparr> BacktestTrade.marketSlug = LadderState.marketSlug ls1,
                         BacktestTrade.tokenId = LadderState.tokenId ls1,
                         BacktestTrade.side = LadderState.side ls1,
                         BacktestTrade.entryPrice = averageEntryPrice ls1,
                         exitPrice = bestBid tick,
                         BacktestTrade.shares = actualSellShares,
                         BacktestTrade.entryTimestamp = lastStepTime ls1,
                         exitTimestamp = PriceTick.timestamp tick,
                         exitReason = LADDER_STEP_SELL,
                         pnl = tradePnl,
                         ladderStepId = Some (stepId step) \<rparr>;
               s2 = recordLadderTrade trade s1;
               ls2 = ls1\<lparr> completedSteps := completedSteps ls1 @ [stepId step],
                           currentStepIndex := currentStepIndex ls1 + 1,
                           currentStepPhase := Buy,
                           lastStepTime := PriceTick.timestamp tick,
                           lastStepPrice := bestBid tick \<rparr>;
               remainingAfterSell = totalShares ls2 - totalSharesSold ls2;
               ls3 = (if remainingAfterSell < 0.01
                      then ls2\<lparr> totalShares := 0, totalCostBasis := 0, averageEntryPrice := 0,
                                totalSharesSold := 0, totalSellProceeds := 0 \<rparr>
                      else ls2)
      in checkCompoundLimit cfg (s2\<lparr> ladderState := Some ls3 \<rparr>))"

definition executeLadderStopLoss ::
  "(nat \<Rightarrow> int) \<Rightarrow> BacktestConfig \<Rightarrow> PriceTick \<Rightarrow> LadderState \<Rightarrow> LadderStep \<Rightarrow> Engine \<Rightarrow> Engine" where
  "executeLadderStopLoss clk cfg tick ls step s =
     (let openShares = getOpenLadderShares ls
      in if openShares < 0.01 then
           (let s1 = s\<lparr> ladderMarketLocks := ladderMarketLocks s - {LadderState.marketSlug ls} \<rparr>;
                (now, s2) = dateNow clk s1
            in s2\<lparr> ladderState := Some (resetLadderState now ls) \<rparr>)
      else let price = max (bestBid tick * (1 - slippage cfg)) 0.01;
               proceeds = openShares * price;
               costBasisPortion =
                 (if totalShares ls > 0
                  then (openShares / totalShares ls) * totalCostBasis ls else 0);
               tradePnl = proceeds - costBasisPortion;
               ls1 = ls\<lparr> totalSharesSold := totalSharesSold ls + openShares,
                         totalSellProceeds := totalSellProceeds ls + proceeds \<rparr>;
               s1 = s\<lparr> Engine.balance := Engine.balance s + proceeds \<rparr>;
               trade = \<lparr> BacktestTrade.marketSlug = LadderState.marketSlug ls1,
                         BacktestTrade.tokenId = LadderState.tokenId ls1,
                         BacktestTrade.side = LadderState.side ls1,
                         BacktestTrade.entryPrice = averageEntryPrice ls1,
                         exitPrice = price,
                         BacktestTrade.shares = openShares,
                         BacktestTrade.entryTimestamp = lastStepTime ls1,
                         exitTimestamp = PriceTick.timestamp tick,
                         exitReason = LADDER_STOP_LOSS,
                         pnl = tradePnl,
                         ladderStepId = Some (stepId step) \<rparr>;
               s2 = recordLadderTrade trade s1;
               s3 = checkCompoundLimit cfg s2;
               s4 = s3\<lparr> ladderMarketLocks := ladderMarketLocks s3 - {LadderState.marketSlug ls1} \<rparr>;
               (now, s5) = dateNow clk s4
      in s5\<lparr> ladderState := Some (resetLadderState now ls1) \<rparr>)"

definition closeLadderAtExpiry :: "BacktestConfig \<Rightarrow> HistoricalMarket \<Rightarrow> Engine \<Rightarrow> Engine" where
  "closeLadderAtExpiry cfg market s =
     (case ladderState s of
        None \<Rightarrow> s
      | Some ls \<Rightarrow>
         (let remainingShares = totalShares ls - totalSharesSold ls
          in if remainingShares < 0.01 then s\<lparr> ladderState := None \<rparr>
          else let price =
                     (if outcome market = Some (LadderState.side ls) then profitTarget cfg
                      else if outcome market \<noteq> None then 0.01
                      else profitTarget cfg);
                   proceeds = remainingShares * price;
                   costBasisPortion =
                     (if totalShares ls > 0
                      then (remainingShares / totalShares ls) * totalCostBasis ls else 0);
                   tradePnl = proceeds - costBasisPortion;
                   ls1 = ls\<lparr> totalSharesSold := totalSharesSold ls + remainingShares,
                             totalSellProceeds := totalSellProceeds ls + proceeds \<rparr>;
                   s1 = s\<lparr> Engine.balance := Engine.balance s + proceeds \<rparr>;
                   trade = \<lparr> BacktestTrade.marketSlug = LadderState.marketSlug ls1,
                             BacktestTrade.tokenId = LadderState.tokenId ls1,
                             BacktestTrade.side = LadderState.side ls1,
                             BacktestTrade.entryPrice = averageEntryPrice ls1,
                             exitPrice = price,
                             BacktestTrade.shares = remainingShares,
                             BacktestTrade.entryTimestamp = lastStepTime ls1,
                             exitTimestamp = endDate market,
                             exitReason = MARKET_RESOLVED,
                             pnl = tradePnl,
                             ladderStepId = None \<rparr>;
                   s2 = recordLadderTrade trade s1;
                   s3 = checkCompoundLimit cfg s2
          in s3\<lparr> ladderState := None \<rparr>))"

text \<open>
  \<open>processLadderStateTick\<close> in its two parts: the stop-loss, status and recovery checks,
  then (\<open>processLadderStep\<close>) the selection of the next step and its buy or sell trigger,
  on the ladder state as the recovery check left it.
\<close>

definition processLadderStep ::
  "BacktestConfig \<Rightarrow> PriceTick \<Rightarrow> LadderStep list \<Rightarrow> LadderState \<Rightarrow> Engine \<Rightarrow> Engine" where
  "processLadderStep cfg tick steps ls1 s =
     (case getActiveStep ls1 steps of (nextStep, ls2) \<Rightarrow>
        (case nextStep of
           None \<Rightarrow>
             (if status ls2 = Active then
                (let ls3 = ls2\<lparr> status := Completed \<rparr>;
                     s1 = s\<lparr> ladderMarketLocks :=
                               insert (LadderState.marketSlug ls3) (ladderMarketLocks s) \<rparr>;
                     remainingShares = totalShares ls3 - totalSharesSold ls3
                 in if remainingShares < 0.01 then s1\<lparr> ladderState := None \<rparr>
                    else s1\<lparr> ladderState := Some ls3 \<rparr>)
              else s\<lparr> ladderState := Some ls2 \<rparr>)
         | Some step \<Rightarrow>
             (case currentStepPhase ls2 of
                Buy \<Rightarrow>
                  (if bestAsk tick > 0 \<and> bestAsk tick \<le> triggerPrice (buy step)
                   then executeLadderBuyStep cfg tick ls2 step s
                   else s\<lparr> ladderState := Some ls2 \<rparr>)
              | Sell \<Rightarrow>
                  (if bestBid tick > 0 \<and> bestBid tick \<ge> triggerPrice (sell step)
                   then executeLadderSellStep cfg tick ls2 step s
                   else s\<lparr> ladderState := Some ls2 \<rparr>))))"

definition processLadderStateTick ::
  "(nat \<Rightarrow> int) \<Rightarrow> BacktestConfig \<Rightarrow> PriceTick \<Rightarrow> HistoricalMarket \<Rightarrow> LadderStep list
     \<Rightarrow> Engine \<Rightarrow> Engine" where
  "processLadderStateTick clk cfg tick market steps s =
     (case ladderState s of
        None \<Rightarrow> s
      | Some ls \<Rightarrow>
         (let hasShares = (getOpenLadderShares ls > 0.01);
              stopLossStep = getActiveStopLossStep ls steps
          in if hasShares \<and> stopLossStep \<noteq> None \<and> bestBid tick > 0
                \<and> bestBid tick \<le> LadderStep.stopLoss (the stopLossStep)
             then executeLadderStopLoss clk cfg tick ls (the stopLossStep) s
          else if status ls \<noteq> Active then s
          else if needsRecovery ls \<and>
                  \<not> (case List.find enabled steps of
                        None \<Rightarrow> False
                      | Some firstBuyStep \<Rightarrow>
                          bestAsk tick > 0 \<and> bestAsk tick > triggerPrice (buy firstBuyStep))
             then s
          else processLadderStep cfg tick steps
                 (if needsRecovery ls
                  then ls\<lparr> needsRecovery := False,
                           lastStepTime := PriceTick.timestamp tick \<rparr>
                  else ls) s))"

definition processLadderTick ::
  "(nat \<Rightarrow> int) \<Rightarrow> BacktestConfig \<Rightarrow> PriceTick \<Rightarrow> HistoricalMarket \<Rightarrow> Engine \<Rightarrow> Engine" where
  "processLadderTick clk cfg tick market s =
     (let steps = ladderSteps cfg
      in if length steps = 0 then s
      else case ladderState s of
        Some ls \<Rightarrow>
          (if PriceTick.tokenId tick \<noteq> LadderState.tokenId ls then s
           else processLadderStateTick clk cfg tick market steps s)
      | None \<Rightarrow>
          (if Engine.balance s < 1 then s
           else if slug market \<in> ladderMarketLocks s then s
           else let now = PriceTick.timestamp tick;
                    marketEndTime = endDate market;
                    timeRemaining = marketEndTime - now
           in if timeRemaining \<le> 0 \<or> timeRemaining > timeWindowMs cfg then s
           else let spread = bestAsk tick - bestBid tick
           in if spread > maxSpread cfg then s
           else let askPrice = bestAsk tick
           in if askPrice < entryThreshold cfg \<or> askPrice > maxEntryPrice cfg then s
           else let isUpToken = (PriceTick.tokenId tick = upTokenId market);
                    sd = (if isUpToken then UP else DOWN)
           in if (case lastTrade s of
                    None \<Rightarrow> False
                  | Some lt \<Rightarrow> BacktestTrade.marketSlug lt = slug market
                               \<and> BacktestTrade.side lt = sd \<and> pnl lt > 0) then s
           else case List.find enabled steps of
             None \<Rightarrow> s
           | Some firstEnabledStep \<Rightarrow>
               (if askPrice < triggerPrice (buy firstEnabledStep) then s
                else let (t0, s1) = dateNow clk s;
                         ls0 = initializeLadderState t0 (PriceTick.tokenId tick) sd
                                 (slug market) (endDate market);
                         ls1 = ls0\<lparr> lastStepPrice := askPrice,
                                     lastStepTime := PriceTick.timestamp tick \<rparr>;
                         s2 = s1\<lparr> ladderState := Some ls1 \<rparr>;
                         priceTolerance = 0.005
                in if \<bar>askPrice - triggerPrice (buy firstEnabledStep)\<bar> \<le> priceTolerance
                   then executeLadderBuyStep cfg tick ls1 firstEnabledStep s2
                   else s2)))"

definition processTick ::
  "(nat \<Rightarrow> int) \<Rightarrow> BacktestConfig \<Rightarrow> PriceTick \<Rightarrow> HistoricalMarket \<Rightarrow> Engine \<Rightarrow> Engine" where
  "processTick clk cfg tick market s =
     (if riskMode cfg = ''ladder'' then processLadderTick clk cfg tick market s
      else case position s of
        Some p \<Rightarrow>
          (if SimulatedPosition.tokenId p = PriceTick.tokenId tick then
             (if bestBid tick \<ge> profitTarget cfg
              then executeExit cfg (profitTarget cfg) (PriceTick.timestamp tick) PROFIT_TARGET s
              else checkStopLoss cfg tick s)
           else s)
      | None \<Rightarrow> (if Engine.balance s \<ge> 1 then checkEntry cfg tick market s else s))"

section \<open>Metrics\<close>

definition sumPnl :: "BacktestTrade list \<Rightarrow> real" where
  "sumPnl ts = foldl (\<lambda>sum t. sum + pnl t) 0 ts"

definition calculateMaxDrawdown :: "BacktestConfig \<Rightarrow> EquityPoint list \<Rightarrow> real \<times> real" where
  "calculateMaxDrawdown cfg curve =
     (if length curve = 0 then (0, 0)
      else case foldl (\<lambda>(peak, maxDD, maxDDPercent) point.
                    (let peak1 = (if EquityPoint.balance point > peak
                                  then EquityPoint.balance point else peak);
                         dd = peak1 - EquityPoint.balance point;
                         ddPercent = (if peak1 > 0 then dd / peak1 else 0)
                     in if dd > maxDD then (peak1, dd, ddPercent)
                        else (peak1, maxDD, maxDDPercent)))
                 (startingBalance cfg, 0, 0) curve of
             (peak, maxDD, maxDDPercent) \<Rightarrow> (maxDD, maxDDPercent))"

definition calculateDrawdownCurve :: "BacktestConfig \<Rightarrow> EquityPoint list \<Rightarrow> DrawdownPoint list" where
  "calculateDrawdownCurve cfg curve =
     (if length curve = 0 then []
      else snd (foldl (\<lambda>(peak, out) point.
                    (let peak1 = (if EquityPoint.balance point > peak
                                  then EquityPoint.balance point else peak);
                         dd = (if peak1 > 0 then (peak1 - EquityPoint.balance point) / peak1 else 0)
                     in (peak1, out @ [\<lparr> DrawdownPoint.timestamp = EquityPoint.timestamp point,
                                          drawdown = dd \<rparr>])))
                 (startingBalance cfg, []) curve))"

definition calculateConsecutive :: "BacktestTrade list \<Rightarrow> nat \<times> nat" where
  "calculateConsecutive ts =
     (case foldl (\<lambda>(maxW, maxL, curW, curL) trade.
                (if pnl trade > 0
                 then (let curW1 = curW + 1 in
                       (if curW1 > maxW then curW1 else maxW, maxL, curW1, 0))
                 else (let curL1 = curL + 1 in
                       (maxW, if curL1 > maxL then curL1 else maxL, 0, curL1))))
             (0, 0, 0, 0) ts of
        (maxW, maxL, curW, curL) \<Rightarrow> (maxW, maxL))"

definition calculateMetrics ::
  "BacktestConfig \<Rightarrow> BacktestTrade list \<Rightarrow> EquityPoint list \<Rightarrow> PerformanceMetrics" where
  "calculateMetrics cfg ts curve =
     (let winTrades = filter (\<lambda>t. pnl t > 0) ts;
          lossTrades = filter (\<lambda>t. pnl t \<le> 0) ts;
          total = sumPnl ts;
          aWin = (if length winTrades > 0 then sumPnl winTrades / real (length winTrades) else 0);
          aLoss = (if length lossTrades > 0
                   then \<bar>sumPnl lossTrades / real (length lossTrades)\<bar> else 0);
          wRate = (if length ts > 0 then real (length winTrades) / real (length ts) else 0);
          (maxDD, maxDDPercent) = calculateMaxDrawdown cfg curve;
          returns = map (\<lambda>t. pnl t / startingBalance cfg) ts;
          avgReturn = (if length returns > 0
                       then foldl (\<lambda>a r. a + r) 0 returns / real (length returns) else 0);
          stdDev = (if length returns > 0
                    then sqrt (foldl (\<lambda>a r. a + (r - avgReturn) ^ 2) 0 returns
                               / real (length returns))
                    else 0);
          sharpe = (if stdDev > 0 then (avgReturn / stdDev) * sqrt (real (length returns)) else 0);
          grossProfit = sumPnl winTrades;
          grossLoss = \<bar>sumPnl lossTrades\<bar>;
          pFactor = (if grossLoss > 0 then Finite (grossProfit / grossLoss)
                     else if grossProfit > 0 then Infinity else Finite 0);
          (maxW, maxL) = calculateConsecutive ts;
          expect = wRate * aWin - (1 - wRate) * aLoss;
          roc = total / startingBalance cfg
      in \<lparr> totalTrades = length ts,
           wins = length winTrades,
           losses = length lossTrades,
           winRate = wRate,
           totalPnL = total,
           maxDrawdown = maxDD,
           maxDrawdownPercent = maxDDPercent,
           sharpeRatio = sharpe,
           profitFactor = pFactor,
           avgWin = aWin,
           avgLoss = aLoss,
           avgTradeReturn = (if length ts > 0 then total / real (length ts) else 0),
           maxConsecutiveWins = maxW,
           maxConsecutiveLosses = maxL,
           expectancy = expect,
           returnOnCapital = roc \<rparr>)"

section \<open>The replay loop\<close>

text \<open>
  \<open>marketMap\<close>: a later market with the same slug replaces an earlier one, as
  \<open>Map.set\<close> does. \<open>Array.prototype.sort\<close> is stable; so is \<open>sort_key\<close>.
\<close>

definition marketMapOf :: "HistoricalMarket list \<Rightarrow> (string \<rightharpoonup> HistoricalMarket)" where
  "marketMapOf markets = foldl (\<lambda>mp market. mp(slug market \<mapsto> market)) Map.empty markets"

definition collectTicks :: "HistoricalMarket list \<Rightarrow> (PriceTick \<times> HistoricalMarket) list" where
  "collectTicks markets =
     concat (map (\<lambda>market. map (\<lambda>tick. (tick, market)) (priceTicks market)) markets)"

definition allTicksSorted :: "HistoricalMarket list \<Rightarrow> (PriceTick \<times> HistoricalMarket) list" where
  "allTicksSorted markets = sort_key (\<lambda>tm. PriceTick.timestamp (fst tm)) (collectTicks markets)"

text \<open>
  One iteration of the loop of \<open>run\<close> over the engine and the local set
  \<open>expiredMarkets\<close>, in the three stages of the source: the expiry check for the market
  of the open position (\<open>expirePositionMarket\<close>), the same for the market of the ladder
  (\<open>expireLadderMarket\<close>), then the tick itself. \<open>this.position?.marketSlug ||
  positionMarket.slug\<close> takes the market's slug when there is no position or its slug
  is the empty string.
\<close>

definition expirePositionMarket ::
  "BacktestConfig \<Rightarrow> (string \<rightharpoonup> HistoricalMarket) \<Rightarrow> PriceTick
     \<Rightarrow> Engine \<times> string set \<Rightarrow> Engine \<times> string set" where
  "expirePositionMarket cfg marketMap tick st =
     (case st of (s, expiredMarkets) \<Rightarrow>
        (case position s of
           None \<Rightarrow> (s, expiredMarkets)
         | Some p \<Rightarrow>
            (if SimulatedPosition.marketSlug p \<in> expiredMarkets then (s, expiredMarkets)
             else case marketMap (SimulatedPosition.marketSlug p) of
               None \<Rightarrow> (s, expiredMarkets)
             | Some positionMarket \<Rightarrow>
                (if PriceTick.timestamp tick \<ge> endDate positionMarket then
                   (let s' = closePositionAtExpiry cfg positionMarket s
                    in (s', insert (case position s' of
                                      None \<Rightarrow> slug positionMarket
                                    | Some p' \<Rightarrow>
                                        (if SimulatedPosition.marketSlug p' \<noteq> []
                                         then SimulatedPosition.marketSlug p'
                                         else slug positionMarket))
                                   expiredMarkets))
                 else (s, expiredMarkets)))))"

definition expireLadderMarket ::
  "BacktestConfig \<Rightarrow> (string \<rightharpoonup> HistoricalMarket) \<Rightarrow> PriceTick
     \<Rightarrow> Engine \<times> string set \<Rightarrow> Engine \<times> string set" where
  "expireLadderMarket cfg marketMap tick st =
     (case st of (s, expiredMarkets) \<Rightarrow>
        (case ladderState s of
           None \<Rightarrow> (s, expiredMarkets)
         | Some ls \<Rightarrow>
            (if LadderState.marketSlug ls \<in> expiredMarkets then (s, expiredMarkets)
             else case marketMap (LadderState.marketSlug ls) of
               None \<Rightarrow> (s, expiredMarkets)
             | Some ladderMarket \<Rightarrow>
                (if PriceTick.timestamp tick \<ge> endDate ladderMarket then
                   (let s' = closeLadderAtExpiry cfg ladderMarket s
                    in (s', insert (case ladderState s' of
                                      None \<Rightarrow> slug ladderMarket
                                    | Some ls' \<Rightarrow>
                                        (if LadderState.marketSlug ls' \<noteq> []
                                         then LadderState.marketSlug ls'
                                         else slug ladderMarket))
                                   expiredMarkets))
                 else (s, expiredMarkets)))))"

definition runLoopBody ::
  "(nat \<Rightarrow> int) \<Rightarrow> BacktestConfig \<Rightarrow> (string \<rightharpoonup> HistoricalMarket)
     \<Rightarrow> Engine \<times> string set \<Rightarrow> PriceTick \<times> HistoricalMarket \<Rightarrow> Engine \<times> string set" where
  "runLoopBody clk cfg marketMap st tm =
     (case tm of (tick, market) \<Rightarrow>
        (case expireLadderMarket cfg marketMap tick (expirePositionMarket cfg marketMap tick st) of
           (s2, expired2) \<Rightarrow>
             (if slug market \<in> expired2 then (s2, expired2)
              else if PriceTick.timestamp tick \<ge> endDate market then
                (let s3 = (case position s2 of
                             None \<Rightarrow> s2
                           | Some p \<Rightarrow> (if SimulatedPosition.marketSlug p = slug market
                                        then closePositionAtExpiry cfg market s2 else s2));
                     s4 = (case ladderState s3 of
                             None \<Rightarrow> s3
                           | Some ls \<Rightarrow> (if LadderState.marketSlug ls = slug market
                                         then closeLadderAtExpiry cfg market s3 else s3))
                 in (s4, insert (slug market) expired2))
              else (processTick clk cfg tick market (s2\<lparr> currentMarket := Some market \<rparr>),
                    expired2))))"

text \<open>
  \<open>run\<close> starts from the engine as the previous run (or the constructor) left it and
  resets every field but \<open>currentMarket\<close>.
\<close>

definition newEngine :: "BacktestConfig \<Rightarrow> Engine" where
  "newEngine cfg =
     \<lparr> Engine.balance = startingBalance cfg,
       Engine.savedProfit = 0,
       position = None,
       ladderState = None,
       ladderMarketLocks = {},
       Engine.trades = [],
       Engine.equityCurve = [],
       peakBalance = startingBalance cfg,
       lastTrade = None,
       currentMarket = None,
       nowCalls = 0 \<rparr>"

definition runEngine ::
  "(nat \<Rightarrow> int) \<Rightarrow> BacktestConfig \<Rightarrow> HistoricalMarket list \<Rightarrow> Engine \<Rightarrow> Engine" where
  "runEngine clk cfg markets s0 =
     (let s = s0\<lparr> Engine.balance := startingBalance cfg,
                  Engine.savedProfit := 0,
                  position := None,
                  ladderState := None,
                  ladderMarketLocks := {},
                  Engine.trades := [],
                  Engine.equityCurve := [],
                  peakBalance := startingBalance cfg,
                  lastTrade := None \<rparr>;
          marketMap = marketMapOf markets;
          allTicks = allTicksSorted markets;
          (s1, expiredMarkets) = foldl (runLoopBody clk cfg marketMap) (s, {}) allTicks;
          s2 = (case position s1 of
                  None \<Rightarrow> s1
                | Some p \<Rightarrow>
                   (case marketMap (SimulatedPosition.marketSlug p) of
                      None \<Rightarrow> s1
                    | Some market \<Rightarrow> closePositionAtExpiry cfg market s1))
      in (case ladderState s2 of
            None \<Rightarrow> s2
          | Some ls \<Rightarrow>
             (case marketMap (LadderState.marketSlug ls) of
                None \<Rightarrow> s2
              | Some market \<Rightarrow> closeLadderAtExpiry cfg market s2)))"

definition run ::
  "(nat \<Rightarrow> int) \<Rightarrow> BacktestConfig \<Rightarrow> HistoricalMarket list \<Rightarrow> Engine \<Rightarrow> BacktestResult \<times> Engine" where
  "run clk cfg markets s0 =
     (let s = runEngine clk cfg markets s0
      in (\<lparr> config = cfg,
            metrics = calculateMetrics cfg (Engine.trades s) (Engine.equityCurve s),
            BacktestResult.trades = Engine.trades s,
            BacktestResult.equityCurve = Engine.equityCurve s,
            drawdownCurve = calculateDrawdownCurve cfg (Engine.equityCurve s),
            BacktestResult.savedProfit = Engine.savedProfit s,
            finalBalance = Engine.balance s \<rparr>, s))"

definition runBacktest ::
  "(nat \<Rightarrow> int) \<Rightarrow> BacktestConfig \<Rightarrow> HistoricalMarket list \<Rightarrow> BacktestResult" where
  "runBacktest clk cfg markets = fst (run clk cfg markets (newEngine cfg))"

section \<open>The exits of the live bot (bot.ts)\<close>

subsection \<open>The trades table (db.ts)\<close>

text \<open>
  \<open>getTradeById\<close>, \<open>closeTrade\<close> and \<open>insertTrade\<close> of db.ts, on the table held in the
  bot. \<open>insertTrade\<close> gives the new row the id after the last one given out
  (\<open>AUTOINCREMENT\<close>).
\<close>

definition getTradeById :: "nat \<Rightarrow> Bot \<Rightarrow> Trade option" where
  "getTradeById i w = tradesTable w i"

definition closeTrade :: "nat \<Rightarrow> real \<Rightarrow> TradeStatus \<Rightarrow> Bot \<Rightarrow> Bot" where
  "closeTrade i price st w =
     (case getTradeById i w of
        None \<Rightarrow> w
      | Some trade \<Rightarrow>
          (let tradePnl = (price - entry_price trade) * Trade.shares trade
           in w\<lparr> tradesTable := (tradesTable w)
                    (i \<mapsto> trade\<lparr> exit_price := Some price, Trade.status := st,
                                  Trade.pnl := Some tradePnl \<rparr>) \<rparr>))"

definition insertTrade :: "Trade \<Rightarrow> Bot \<Rightarrow> nat \<times> Bot" where
  "insertTrade trade w =
     (let i = Suc (lastInsertRowid w)
      in (i, w\<lparr> tradesTable := (tradesTable w)
                   (i \<mapsto> trade\<lparr> exit_price := None, Trade.status := OPEN,
                                 Trade.pnl := None \<rparr>),
                 lastInsertRowid := i \<rparr>))"

subsection \<open>Helpers of the exits\<close>

text \<open>
  Methods of \<open>Bot\<close> that have a namesake in the replay engine carry the suffix \<open>_bot\<close>.
  \<open>this.config.compoundLimit\<close> may be absent, which the source treats as 0.
\<close>

definition checkCompoundLimit_bot :: "BotConfig \<Rightarrow> Bot \<Rightarrow> Bot" where
  "checkCompoundLimit_bot cfg w =
     (if BotConfig.compoundLimit cfg \<le> 0 then w
      else if Bot.balance w > BotConfig.compoundLimit cfg then
        (let profit = Bot.balance w - BotConfig.baseBalance cfg
         in w\<lparr> Bot.savedProfit := Bot.savedProfit w + profit,
                Bot.balance := BotConfig.baseBalance cfg \<rparr>)
      else w)"

definition clearLadderMarketLock :: "string \<Rightarrow> Bot \<Rightarrow> Bot" where
  "clearLadderMarketLock mslug w =
     (if mslug \<notin> Bot.ladderMarketLocks w then w
      else w\<lparr> Bot.ladderMarketLocks := Bot.ladderMarketLocks w - {mslug} \<rparr>)"

text \<open>Assignment to the fields of the ladder object with reference \<open>l\<close>.\<close>

definition updateLadder :: "nat \<Rightarrow> (BotLadderState \<Rightarrow> BotLadderState) \<Rightarrow> Bot \<Rightarrow> Bot" where
  "updateLadder l f w = w\<lparr> ladderHeap := (ladderHeap w)(l := f (ladderHeap w l)) \<rparr>"

definition closeAllOpenLadderTrades :: "nat \<Rightarrow> real \<Rightarrow> TradeStatus \<Rightarrow> Bot \<Rightarrow> Bot" where
  "closeAllOpenLadderTrades l price st w =
     (let w1 = foldl (\<lambda>w' i. case getTradeById i w' of
                                None \<Rightarrow> w'
                              | Some trade \<Rightarrow>
                                  (if Trade.status trade \<noteq> OPEN then w'
                                   else closeTrade i price st w'))
                     w (tradeIds (ladderHeap w l))
      in updateLadder l (\<lambda>ls. ls\<lparr> tradeIds := [] \<rparr>) w1)"


text \<open>
  One iteration of the loop of \<open>closeLadderTradesForSell\<close> over the table, the shares
  still to sell and the ids that stay open; then the method itself. bot.ts imports
  \<open>updateTradeShares\<close> from db.ts, whose copy in the repository does not define it: it is
  the parameter \<open>updateTradeShares\<close>, any function of the row id, the two numbers it is given
  and the table.
\<close>

type_synonym TableUpdate = "nat \<Rightarrow> real \<Rightarrow> real \<Rightarrow> (nat \<rightharpoonup> Trade) \<Rightarrow> (nat \<rightharpoonup> Trade)"

definition closeLadderTradesForSell_body ::
  "TableUpdate \<Rightarrow> real \<Rightarrow> TradeStatus \<Rightarrow> Bot \<times> real \<times> nat list \<Rightarrow> nat
     \<Rightarrow> Bot \<times> real \<times> nat list" where
  "closeLadderTradesForSell_body updateTradeShares price st acc i =
     (case acc of (w, remainingToSell, remainingOpenTradeIds) \<Rightarrow>
        (case getTradeById i w of
           None \<Rightarrow> acc
         | Some trade \<Rightarrow>
            (if Trade.status trade \<noteq> OPEN then acc
             else if remainingToSell \<le> 0 then
               (w, remainingToSell, remainingOpenTradeIds @ [i])
             else if Trade.shares trade \<le> remainingToSell + 0.0001 then
               (closeTrade i price st w, remainingToSell - Trade.shares trade,
                remainingOpenTradeIds)
             else
               (let costBasisPerShare =
                      (if Trade.shares trade > 0 then cost_basis trade / Trade.shares trade
                       else 0);
                    remainingShares = Trade.shares trade - remainingToSell;
                    remainingCostBasis = costBasisPerShare * remainingShares;
                    w1 = w\<lparr> tradesTable := updateTradeShares i remainingShares
                                                remainingCostBasis (tradesTable w) \<rparr>;
                    soldCostBasis = costBasisPerShare * remainingToSell;
                    (soldTradeId, w2) =
                       insertTrade (trade\<lparr> Trade.shares := remainingToSell,
                                          cost_basis := soldCostBasis \<rparr>) w1;
                    w3 = closeTrade soldTradeId price st w2
                in (w3, 0, remainingOpenTradeIds @ [i])))))"

definition closeLadderTradesForSell ::
  "TableUpdate \<Rightarrow> nat \<Rightarrow> real \<Rightarrow> real \<Rightarrow> TradeStatus \<Rightarrow> Bot \<Rightarrow> Bot" where
  "closeLadderTradesForSell updateTradeShares l sellShares price st w =
     (case foldl (closeLadderTradesForSell_body updateTradeShares price st) (w, sellShares, [])
                 (tradeIds (ladderHeap w l)) of
        (w1, remainingToSell, remainingOpenTradeIds) \<Rightarrow>
          updateLadder l (\<lambda>ls. ls\<lparr> tradeIds := remainingOpenTradeIds \<rparr>) w1)"

definition resetLadderState_bot :: "int \<Rightarrow> BotLadderState \<Rightarrow> BotLadderState" where
  "resetLadderState_bot now ls =
     ls\<lparr> currentStepIndex := 0,
         currentStepPhase := Buy,
         completedSteps := [],
         skippedSteps := [],
         skippedReasons := [],
         totalShares := 0,
         totalCostBasis := 0,
         averageEntryPrice := 0,
         totalSharesSold := 0,
         totalSellProceeds := 0,
         lastStepTime := now,
         lastStepPrice := 0,
         tradeIds := [],
         needsRecovery := True,
         LadderState.status := Active \<rparr>"



subsection \<open>The exit guard\<close>

text \<open>
  \<open>releaseExit\<close> is the \<open>finally\<close> block of the four exits. Each exit is given by its
  segments: the function of its name runs from the call to the first \<open>await\<close> or to the
  return; \<open>_sold\<close> runs from the settling of \<open>marketSell\<close>, \<open>_synced\<close> from the settling
  of \<open>getBalance\<close>. A segment that returns or is rejected inside the \<open>try\<close> block ends with
  \<open>releaseExit\<close>.
\<close>

definition releaseExit :: "string \<Rightarrow> Bot \<Rightarrow> Bot" where
  "releaseExit tok w = w\<lparr> pendingExits := pendingExits w - {tok} \<rparr>"

subsection \<open>executeStopLoss\<close>




subsection \<open>executeTakeProfit\<close>




subsection \<open>executeLadderSellStep\<close>

text \<open>
  The ladder exits have no \<open>catch\<close>: a rejection of an awaited call leaves through
  \<open>finally\<close> and rejects the exit. \<open>executeLadderSellStep_completed\<close> is the part after the
  paper and the real branch: the step is marked completed and the totals are cleared when
  nothing is left.
\<close>

definition syncLadderPosition :: "string \<Rightarrow> nat \<Rightarrow> Bot \<Rightarrow> Bot" where
  "syncLadderPosition tok l w =
     (case positions w tok of
        None \<Rightarrow> w
      | Some p \<Rightarrow>
          (let ls = ladderHeap w l;
               left = totalShares ls - totalSharesSold ls;
               w1 = w\<lparr> positionHeap := (positionHeap w)
                          (p := (positionHeap w p)\<lparr> Position.shares := left \<rparr>) \<rparr>
           in if left < 0.01 then w1\<lparr> positions := (positions w1)(tok := None) \<rparr> else w1))"

definition executeLadderSellStep_completed ::
  "int \<Rightarrow> string \<Rightarrow> nat \<Rightarrow> LadderStep \<Rightarrow> real \<Rightarrow> Bot \<Rightarrow> Bot \<times> Status" where
  "executeLadderSellStep_completed now tok l step bidPrice w =
     (let w1 = updateLadder l (\<lambda>ls. ls\<lparr> completedSteps := completedSteps ls @ [stepId step],
                                         currentStepIndex := currentStepIndex ls + 1,
                                         currentStepPhase := Buy,
                                         lastStepTime := now,
                                         lastStepPrice := bidPrice \<rparr>) w;
          ls1 = ladderHeap w1 l;
          remainingAfterSell = totalShares ls1 - totalSharesSold ls1;
          w2 = (if remainingAfterSell < 0.01
                then updateLadder l (\<lambda>ls. ls\<lparr> totalShares := 0, totalCostBasis := 0,
                                              totalSharesSold := 0, totalSellProceeds := 0,
                                              tradeIds := [] \<rparr>) w1
                else w1)
      in (releaseExit tok w2, Done))"




subsection \<open>executeLadderStopLoss\<close>

text \<open>
  \<open>executeLadderStopLoss_reset\<close> is the part after the paper and the real branch, and of
  the early return when there is nothing to sell: the market lock is cleared and the ladder
  reset.
\<close>

definition executeLadderStopLoss_reset :: "int \<Rightarrow> string \<Rightarrow> nat \<Rightarrow> Bot \<Rightarrow> Bot \<times> Status" where
  "executeLadderStopLoss_reset now tok l w =
     (let w1 = clearLadderMarketLock (LadderState.marketSlug (ladderHeap w l)) w;
          w2 = updateLadder l (resetLadderState_bot now) w1
      in (releaseExit tok w2, Done))"




subsection \<open>Interleaving of exits\<close>


fun suspensionToken :: "Suspension \<Rightarrow> string" where
  "suspensionToken (StopLossSell tok p) = tok"
| "suspensionToken (StopLossBalance tok) = tok"
| "suspensionToken (TakeProfitSell tok p) = tok"
| "suspensionToken (TakeProfitBalance tok) = tok"
| "suspensionToken (LadderSellSell tok l step bidPrice actualSellShares) = tok"
| "suspensionToken (LadderSellBalance tok l step bidPrice) = tok"
| "suspensionToken (LadderStopSell tok l sharesToSell) = tok"
| "suspensionToken (LadderStopBalance tok l) = tok"






text \<open>
  What a segment of an exit for the token \<open>tok\<close>, run from the bot \<open>w\<close>, is expected to do
  with the guards: the guard of \<open>tok\<close> is held if the exit is now suspended and free if it
  has returned or been rejected, and no other guard has changed.
\<close>

definition keepsGuard :: "string \<Rightarrow> Bot \<Rightarrow> Bot \<times> Status \<Rightarrow> bool" where
  "keepsGuard tok w r \<longleftrightarrow>
     (case snd r of
        Awaiting t \<Rightarrow> suspensionToken t = tok \<and> pendingExits (fst r) = insert tok (pendingExits w)
      | Done \<Rightarrow> pendingExits (fst r) = pendingExits w - {tok}
      | Rejected \<Rightarrow> pendingExits (fst r) = pendingExits w - {tok})"

section \<open>Properties expected of the engine\<close>

text \<open>A step is actionable when it is enabled and neither completed nor skipped.\<close>

definition actionable :: "LadderState \<Rightarrow> LadderStep \<Rightarrow> bool" where
  "actionable ls step \<longleftrightarrow>
     enabled step \<and> stepId step \<notin> set (completedSteps ls) \<and> stepId step \<notin> set (skippedSteps ls)"

text \<open>
  What \<open>getActiveStep\<close> is expected to return from a ladder state \<open>ls\<close>: nothing when no
  step at or after \<open>currentStepIndex ls\<close> is actionable, otherwise the first such step, with
  \<open>currentStepIndex\<close> advanced to it.
\<close>

definition firstActionableFrom ::
  "LadderState \<Rightarrow> LadderStep list \<Rightarrow> LadderStep option \<times> LadderState \<Rightarrow> bool" where
  "firstActionableFrom ls steps r \<longleftrightarrow>
     (case r of
        (None, ls') \<Rightarrow>
          (\<forall>i. currentStepIndex ls \<le> i \<and> i < length steps \<longrightarrow> \<not> actionable ls (steps ! i))
          \<and> ls' = ls\<lparr> currentStepIndex := max (currentStepIndex ls) (length steps) \<rparr>
      | (Some step, ls') \<Rightarrow>
          (\<exists>j. currentStepIndex ls \<le> j \<and> j < length steps \<and> step = steps ! j
               \<and> actionable ls step
               \<and> (\<forall>i. currentStepIndex ls \<le> i \<and> i < j \<longrightarrow> \<not> actionable ls (steps ! i))
               \<and> ls' = ls\<lparr> currentStepIndex := j \<rparr>))"

text \<open>The trade record \<open>executeExit\<close> is expected to write for a position closed at price \<open>x\<close>.\<close>

definition closedTrade :: "SimulatedPosition \<Rightarrow> real \<Rightarrow> int \<Rightarrow> ExitReason \<Rightarrow> BacktestTrade" where
  "closedTrade p x ts reason =
     \<lparr> BacktestTrade.marketSlug = SimulatedPosition.marketSlug p,
       BacktestTrade.tokenId = SimulatedPosition.tokenId p,
       BacktestTrade.side = SimulatedPosition.side p,
       BacktestTrade.entryPrice = SimulatedPosition.entryPrice p,
       exitPrice = x,
       BacktestTrade.shares = SimulatedPosition.shares p,
       BacktestTrade.entryTimestamp = SimulatedPosition.entryTimestamp p,
       exitTimestamp = ts,
       exitReason = reason,
       pnl = (x - SimulatedPosition.entryPrice p) * SimulatedPosition.shares p,
       ladderStepId = None \<rparr>"

text \<open>The entry constraints shared by both modes: time window, spread, price band.\<close>

definition entryFilter :: "BacktestConfig \<Rightarrow> PriceTick \<Rightarrow> HistoricalMarket \<Rightarrow> bool" where
  "entryFilter cfg tick market \<longleftrightarrow>
     0 < endDate market - PriceTick.timestamp tick
     \<and> endDate market - PriceTick.timestamp tick \<le> timeWindowMs cfg
     \<and> bestAsk tick - bestBid tick \<le> maxSpread cfg
     \<and> entryThreshold cfg \<le> bestAsk tick \<and> bestAsk tick \<le> maxEntryPrice cfg"

definition tickSide :: "PriceTick \<Rightarrow> HistoricalMarket \<Rightarrow> Side" where
  "tickSide tick market = (if PriceTick.tokenId tick = upTokenId market then UP else DOWN)"

text \<open>
  The conditions, other than the comparison with the first buy trigger, under which
  \<open>processLadderTick\<close> starts a ladder on an engine without one; and the ladder state it
  stores before any buy.
\<close>

definition ladderEntryEligible ::
  "BacktestConfig \<Rightarrow> PriceTick \<Rightarrow> HistoricalMarket \<Rightarrow> Engine \<Rightarrow> bool" where
  "ladderEntryEligible cfg tick market s \<longleftrightarrow>
     ladderSteps cfg \<noteq> [] \<and> Engine.balance s \<ge> 1 \<and> slug market \<notin> ladderMarketLocks s
     \<and> entryFilter cfg tick market
     \<and> \<not> (\<exists>lt. lastTrade s = Some lt \<and> BacktestTrade.marketSlug lt = slug market
               \<and> BacktestTrade.side lt = tickSide tick market \<and> pnl lt > 0)"

definition freshLadder :: "(nat \<Rightarrow> int) \<Rightarrow> PriceTick \<Rightarrow> HistoricalMarket \<Rightarrow> Engine \<Rightarrow> LadderState" where
  "freshLadder clk tick market s =
     (initializeLadderState (clk (nowCalls s)) (PriceTick.tokenId tick) (tickSide tick market)
        (slug market) (endDate market))
       \<lparr> lastStepPrice := bestAsk tick, lastStepTime := PriceTick.timestamp tick \<rparr>"


text \<open>
  What holds of a ladder while it waits for recovery: it is exactly as
  \<open>resetLadderState\<close> left it. \<open>ladderInv\<close> says so of the engine's ladder, if any.
\<close>

definition recoveryInv :: "LadderState \<Rightarrow> bool" where
  "recoveryInv ls \<longleftrightarrow>
     (needsRecovery ls \<longrightarrow>
        currentStepIndex ls = 0 \<and> currentStepPhase ls = Buy \<and> completedSteps ls = []
        \<and> skippedSteps ls = [] \<and> totalShares ls = 0 \<and> totalSharesSold ls = 0
        \<and> status ls = Active)"

definition ladderInv :: "Engine \<Rightarrow> bool" where
  "ladderInv s \<longleftrightarrow> (case ladderState s of None \<Rightarrow> True | Some ls \<Rightarrow> recoveryInv ls)"

text \<open>
  Erasure of everything a reading of the clock can have touched: \<open>ladderStartTime\<close>, the
  \<open>lastStepTime\<close> of a ladder waiting for recovery, the count of clock readings, and
  \<open>currentMarket\<close>, which \<open>run\<close> does not reset. Two engines with the same erasure
  differ in nothing else.
\<close>

definition eraseLadder :: "LadderState \<Rightarrow> LadderState" where
  "eraseLadder ls =
     ls\<lparr> ladderStartTime := 0,
         lastStepTime := (if needsRecovery ls then 0 else lastStepTime ls) \<rparr>"

definition erase :: "Engine \<Rightarrow> Engine" where
  "erase s = s\<lparr> ladderState := map_option eraseLadder (ladderState s),
               nowCalls := 0, currentMarket := None \<rparr>"

definition erasePair :: "Engine \<times> string set \<Rightarrow> Engine \<times> string set" where
  "erasePair st = (erase (fst st), snd st)"

text \<open>The third stage of \<open>runLoopBody\<close>, after the two expiry checks, on its own.\<close>

definition afterExpiry ::
  "(nat \<Rightarrow> int) \<Rightarrow> BacktestConfig \<Rightarrow> PriceTick \<Rightarrow> HistoricalMarket
     \<Rightarrow> Engine \<times> string set \<Rightarrow> Engine \<times> string set" where
  "afterExpiry clk cfg tick market st =
     (case st of (s2, expired2) \<Rightarrow>
             (if slug market \<in> expired2 then (s2, expired2)
              else if PriceTick.timestamp tick \<ge> endDate market then
                (let s3 = (case position s2 of
                             None \<Rightarrow> s2
                           | Some p \<Rightarrow> (if SimulatedPosition.marketSlug p = slug market
                                        then closePositionAtExpiry cfg market s2 else s2));
                     s4 = (case ladderState s3 of
                             None \<Rightarrow> s3
                           | Some ls \<Rightarrow> (if LadderState.marketSlug ls = slug market
                                         then closeLadderAtExpiry cfg market s3 else s3))
                 in (s4, insert (slug market) expired2))
              else (processTick clk cfg tick market (s2\<lparr> currentMarket := Some market \<rparr>),
                    expired2)))"

section \<open>Concrete inputs\<close>

text \<open>The ladder configuration and market of the repository's ladder tests.\<close>

definition step1 :: LadderStep where
  "step1 = \<lparr> stepId = ''step1'', LadderStep.stopLoss = 0.4,
              buy = \<lparr> triggerPrice = 0.6, sizeType = Percent, sizeValue = 100 \<rparr>,
              sell = \<lparr> triggerPrice = 0.7, sizeType = Percent, sizeValue = 100 \<rparr>,
              enabled = True \<rparr>"

definition ladderConfig :: BacktestConfig where
  "ladderConfig =
     \<lparr> entryThreshold = 0.5, maxEntryPrice = 0.9, BacktestConfig.stopLoss = 0.4,
       maxSpread = 0.05, timeWindowMs = 900000, profitTarget = 0.99, startingBalance = 100,
       slippage = 0, compoundLimit = 0, baseBalance = 10, riskMode = ''ladder'',
       ladderSteps = [step1] \<rparr>"

definition makeTick :: "int \<Rightarrow> real \<Rightarrow> real \<Rightarrow> PriceTick" where
  "makeTick ts bid ask =
     \<lparr> PriceTick.timestamp = ts, PriceTick.tokenId = ''UP'',
       PriceTick.marketSlug = ''btc-updown-15m-1'',
       bestBid = bid, bestAsk = ask, midPrice = (bid + ask) / 2 \<rparr>"

definition makeMarket :: "PriceTick list \<Rightarrow> Side option \<Rightarrow> HistoricalMarket" where
  "makeMarket ticks oc =
     \<lparr> slug = ''btc-updown-15m-1'', question = ''BTC up or down?'', startDate = 0,
       endDate = 900000, upTokenId = ''UP'', downTokenId = ''DOWN'', outcome = oc,
       priceTicks = ticks \<rparr>"

text \<open>A configuration with the compounding sweep switched on (limit 15, base 10).\<close>

definition compoundConfig :: BacktestConfig where
  "compoundConfig = ladderConfig\<lparr> compoundLimit := 15, baseBalance := 10, riskMode := ''normal'' \<rparr>"

text \<open>Three steps: the first disabled, the second already completed, the third open.\<close>

definition threeSteps :: "LadderStep list" where
  "threeSteps = [step1\<lparr> stepId := ''a'', enabled := False \<rparr>, step1\<lparr> stepId := ''b'' \<rparr>,
                 step1\<lparr> stepId := ''c'' \<rparr>]"

definition midLadder :: LadderState where
  "midLadder = (initializeLadderState 0 ''UP'' UP ''btc-updown-15m-1'' 900000)
                 \<lparr> completedSteps := [''b''] \<rparr>"

text \<open>The same parameters in normal mode.\<close>

definition normalConfig :: BacktestConfig where
  "normalConfig = ladderConfig\<lparr> riskMode := ''normal'', ladderSteps := [] \<rparr>"

text \<open>An engine holding 20 shares bought at 0.50, under the compounding configuration.\<close>

definition heldPosition :: SimulatedPosition where
  "heldPosition =
     \<lparr> SimulatedPosition.tokenId = ''UP'',
       SimulatedPosition.marketSlug = ''btc-updown-15m-1'', SimulatedPosition.side = UP,
       SimulatedPosition.shares = 20, SimulatedPosition.entryPrice = 0.5,
       SimulatedPosition.entryTimestamp = 60000 \<rparr>"

definition heldEngine :: Engine where
  "heldEngine = (newEngine compoundConfig)\<lparr> Engine.balance := 0, position := Some heldPosition \<rparr>"

text \<open>
  Two markets whose ticks interleave in time: UP is bought and wins in the first market,
  then UP of the second market is bought and stopped out, then the first market ticks again.
\<close>

definition makeTick2 :: "int \<Rightarrow> real \<Rightarrow> real \<Rightarrow> PriceTick" where
  "makeTick2 ts bid ask =
     (makeTick ts bid ask)\<lparr> PriceTick.tokenId := ''UP2'',
                              PriceTick.marketSlug := ''btc-updown-15m-2'' \<rparr>"

definition makeMarket2 :: "PriceTick list \<Rightarrow> Side option \<Rightarrow> HistoricalMarket" where
  "makeMarket2 ticks oc =
     (makeMarket ticks oc)\<lparr> slug := ''btc-updown-15m-2'', endDate := 1000000,
                              upTokenId := ''UP2'', downTokenId := ''DOWN2'' \<rparr>"

definition interleavedMarkets :: "HistoricalMarket list" where
  "interleavedMarkets =
     [makeMarket [makeTick 60000 0.64 0.65, makeTick 120000 0.99 1, makeTick 300000 0.64 0.65]
                 (Some UP),
      makeMarket2 [makeTick2 180000 0.64 0.65, makeTick2 240000 0.39 0.40] (Some DOWN)]"

text \<open>
  Ticks of the test market: ask 0.65 above the first buy trigger 0.60, ask at the trigger,
  and ask 0.598 just below it.
\<close>

definition emptyMarket :: HistoricalMarket where
  "emptyMarket = makeMarket [] None"

definition tickAbove :: PriceTick where
  "tickAbove = makeTick 60000 0.64 0.65"

definition tickAtTrigger :: PriceTick where
  "tickAtTrigger = makeTick 120000 0.59 0.60"

definition tickBelowTrigger :: PriceTick where
  "tickBelowTrigger = makeTick 60000 0.59 0.598"

text \<open>A clock that always reads 0.\<close>

definition zeroClock :: "nat \<Rightarrow> int" where
  "zeroClock n = 0"

text \<open>
  The test ladder after its first buy (ask 0.65 creates it, ask 0.60 buys 166.67 shares for
  the whole balance), and two later ticks: bid 0.39 under the stop-loss 0.40, and an empty
  bid side (bid 0).
\<close>

definition boughtEngine :: Engine where
  "boughtEngine =
     processTick zeroClock ladderConfig tickAtTrigger emptyMarket
       (processTick zeroClock ladderConfig tickAbove emptyMarket (newEngine ladderConfig))"

definition tickStopLoss :: PriceTick where
  "tickStopLoss = makeTick 180000 0.39 0.40"

definition tickZeroBid :: PriceTick where
  "tickZeroBid = makeTick 180000 0 0.40"

text \<open>
  The replay of the recovery test up to its stop-loss: ladder created at ask 0.65, bought
  at ask 0.60, stopped out at bid 0.39. Then a tick with ask 0.59, under the trigger, and
  one with ask 0.71, above it.
\<close>

definition stoppedEngine :: Engine where
  "stoppedEngine =
     fst (foldl (runLoopBody zeroClock ladderConfig (marketMapOf [emptyMarket]))
            (newEngine ladderConfig, {})
            [(tickAbove, emptyMarket), (tickAtTrigger, emptyMarket), (tickStopLoss, emptyMarket)])"

definition tickUnderTrigger :: PriceTick where
  "tickUnderTrigger = makeTick 240000 0.58 0.59"

definition tickRecovered :: PriceTick where
  "tickRecovered = makeTick 300000 0.70 0.71"








section \<open>Step selection: termination and result\<close>

lemma getActiveStep_terminates: "getActiveStep_dom (ls, steps)"
proof (induction "length steps - currentStepIndex ls" arbitrary: ls rule: less_induct)
  case less
  have nxt: "getActiveStep_dom (ls\<lparr> currentStepIndex := Suc (currentStepIndex ls) \<rparr>, steps)"
    if "\<not> length steps \<le> currentStepIndex ls"
    using that by (intro less) simp
  show ?case
    by (rule getActiveStep.domintros) (simp_all add: nxt)
qed

lemma actionable_index [simp]:
  "actionable (ls\<lparr> currentStepIndex := i \<rparr>) step = actionable ls step"
  by (simp add: actionable_def)

lemma firstActionableFrom_skip:
  assumes lt: "currentStepIndex ls < length steps"
    and na: "\<not> actionable ls (steps ! currentStepIndex ls)"
    and r: "firstActionableFrom (ls\<lparr> currentStepIndex := currentStepIndex ls + 1 \<rparr>) steps r"
  shows "firstActionableFrom ls steps r"
proof -
  have nxt: "\<not> actionable ls (steps ! i)" if "currentStepIndex ls \<le> i"
    and "\<forall>k. Suc (currentStepIndex ls) \<le> k \<and> k < n \<longrightarrow> \<not> actionable ls (steps ! k)" and "i < n"
    for i n
  proof (cases "i = currentStepIndex ls")
    case True
    with na show ?thesis by simp
  next
    case False
    with that(1) have "Suc (currentStepIndex ls) \<le> i" by arith
    with that(2,3) show ?thesis by blast
  qed
  obtain o' ls' where req: "r = (o', ls')" by (cases r)
  show ?thesis
  proof (cases o')
    case None
    with r req have a: "\<forall>i. Suc (currentStepIndex ls) \<le> i \<and> i < length steps
                            \<longrightarrow> \<not> actionable ls (steps ! i)"
      and b: "ls' = ls\<lparr> currentStepIndex := length steps \<rparr>"
      using lt by (auto simp: firstActionableFrom_def max_def)
    have "\<forall>i. currentStepIndex ls \<le> i \<and> i < length steps \<longrightarrow> \<not> actionable ls (steps ! i)"
      using nxt a by blast
    with b None req lt show ?thesis
      by (simp add: firstActionableFrom_def max_def)
  next
    case (Some step)
    with r req obtain j where j: "Suc (currentStepIndex ls) \<le> j" "j < length steps"
      "step = steps ! j" "actionable ls step"
      "\<forall>i. Suc (currentStepIndex ls) \<le> i \<and> i < j \<longrightarrow> \<not> actionable ls (steps ! i)"
      "ls' = ls\<lparr> currentStepIndex := j \<rparr>"
      by (auto simp: firstActionableFrom_def)
    have "\<forall>i. currentStepIndex ls \<le> i \<and> i < j \<longrightarrow> \<not> actionable ls (steps ! i)"
      using nxt j(5) by blast
    with j Some req show ?thesis
      unfolding firstActionableFrom_def
      by (auto intro!: exI [of _ j])
  qed
qed

lemma getActiveStep_firstActionable:
  "firstActionableFrom ls steps (getActiveStep ls steps)"
proof (induction ls steps rule: getActiveStep.induct)
  case (1 ls steps)
  show ?case
  proof (cases "currentStepIndex ls \<ge> length steps")
    case True
    then show ?thesis
      by (subst getActiveStep.simps) (auto simp add: max_def firstActionableFrom_def)
  next
    case False
    show ?thesis
    proof (cases "actionable ls (steps ! currentStepIndex ls)")
      case True
      with False show ?thesis
        apply (subst getActiveStep.simps)
        apply (simp add: Let_def actionable_def firstActionableFrom_def)
        apply (rule exI [of _ "currentStepIndex ls"])
        apply auto
        done
    next
      case na: False
      let ?ls = "ls\<lparr> currentStepIndex := currentStepIndex ls + 1 \<rparr>"
      have rec: "getActiveStep ls steps = getActiveStep ?ls steps"
        using False na
        by (subst getActiveStep.simps) (auto simp: Let_def actionable_def)
      have IH: "firstActionableFrom ?ls steps (getActiveStep ?ls steps)"
        using False na "1.IH"(1)[OF False refl] "1.IH"(2)[OF False refl]
          "1.IH"(3)[OF False refl]
        unfolding actionable_def by blast
      show ?thesis
        unfolding rec using firstActionableFrom_skip [OF _ na IH] False by simp
    qed
  qed
qed

text \<open>
  C10. From every ladder state (its \<open>currentStepIndex\<close> is a natural number) and every
  step list, the recursion of \<open>getActiveStep\<close> terminates: the input lies in the domain of
  the recursion, each call having raised \<open>currentStepIndex\<close> towards \<open>length steps\<close>. It
  returns either nothing, and then no step at an index from \<open>currentStepIndex\<close> on is
  enabled and neither completed nor skipped, or the first such step; the index it leaves
  behind is that step's, or the end of the list.
\<close>

theorem getActiveStep_terminates_first_actionable:
  "getActiveStep_dom (ls, steps) \<and>
   (case getActiveStep ls steps of
      (None, ls') \<Rightarrow>
        (\<forall>i. currentStepIndex ls \<le> i \<and> i < length steps \<longrightarrow> \<not> actionable ls (steps ! i))
        \<and> ls' = ls\<lparr> currentStepIndex := max (currentStepIndex ls) (length steps) \<rparr>
    | (Some step, ls') \<Rightarrow>
        (\<exists>j. currentStepIndex ls \<le> j \<and> j < length steps \<and> step = steps ! j
             \<and> enabled step \<and> stepId step \<notin> set (completedSteps ls)
             \<and> stepId step \<notin> set (skippedSteps ls)
             \<and> (\<forall>i. currentStepIndex ls \<le> i \<and> i < j \<longrightarrow> \<not> actionable ls (steps ! i))
             \<and> ls' = ls\<lparr> currentStepIndex := j \<rparr>))"
proof
  show "getActiveStep_dom (ls, steps)" by (rule getActiveStep_terminates)
next
  obtain r ls' where res: "getActiveStep ls steps = (r, ls')"
    by (cases "getActiveStep ls steps")
  have fa: "firstActionableFrom ls steps (r, ls')"
    using getActiveStep_firstActionable [of ls steps] by (simp only: res)
  show "case getActiveStep ls steps of
      (None, ls') \<Rightarrow>
        (\<forall>i. currentStepIndex ls \<le> i \<and> i < length steps \<longrightarrow> \<not> actionable ls (steps ! i))
        \<and> ls' = ls\<lparr> currentStepIndex := max (currentStepIndex ls) (length steps) \<rparr>
    | (Some step, ls') \<Rightarrow>
        (\<exists>j. currentStepIndex ls \<le> j \<and> j < length steps \<and> step = steps ! j
             \<and> enabled step \<and> stepId step \<notin> set (completedSteps ls)
             \<and> stepId step \<notin> set (skippedSteps ls)
             \<and> (\<forall>i. currentStepIndex ls \<le> i \<and> i < j \<longrightarrow> \<not> actionable ls (steps ! i))
             \<and> ls' = ls\<lparr> currentStepIndex := j \<rparr>)"
  proof (cases r)
    case None
    with fa show ?thesis
      unfolding res firstActionableFrom_def by simp
  next
    case (Some step)
    with fa obtain j where "currentStepIndex ls \<le> j" "j < length steps" "step = steps ! j"
      "actionable ls step"
      "\<forall>i. currentStepIndex ls \<le> i \<and> i < j \<longrightarrow> \<not> actionable ls (steps ! i)"
      "ls' = ls\<lparr> currentStepIndex := j \<rparr>"
      unfolding firstActionableFrom_def by auto
    then show ?thesis
      unfolding res Some actionable_def
      by (simp only: prod.case option.case) blast
  qed
qed

theorem getActiveStep_terminates_first_actionable_witness:
  "getActiveStep midLadder threeSteps
     = (Some (step1\<lparr> stepId := ''c'' \<rparr>), midLadder\<lparr> currentStepIndex := 2 \<rparr>)
   \<and> \<not> actionable midLadder (threeSteps ! 0) \<and> \<not> actionable midLadder (threeSteps ! 1)
   \<and> actionable midLadder (threeSteps ! 2)"
proof -
  have ev: "getActiveStep midLadder threeSteps
     = (Some (step1\<lparr> stepId := ''c'' \<rparr>), midLadder\<lparr> currentStepIndex := 2 \<rparr>)"
    by (simp add: getActiveStep.simps midLadder_def threeSteps_def step1_def
        initializeLadderState_def Let_def)
  from getActiveStep_terminates_first_actionable [of midLadder threeSteps]
  obtain j where "(0::nat) \<le> j" "j < 3" "actionable midLadder (threeSteps ! j)"
    "\<forall>i. i < j \<longrightarrow> \<not> actionable midLadder (threeSteps ! i)"
    "midLadder\<lparr> currentStepIndex := 2 \<rparr> = midLadder\<lparr> currentStepIndex := j \<rparr>"
    unfolding ev by (auto simp: midLadder_def threeSteps_def initializeLadderState_def actionable_def)
  moreover from this(5) have "j = 2"
    by (simp add: midLadder_def initializeLadderState_def)
  ultimately show ?thesis using ev by simp
qed

section \<open>Compounding sweep\<close>

text \<open>
  C7. If \<open>compoundLimit > 0\<close> and \<open>balance > compoundLimit\<close>, the sweep adds
  \<open>balance - baseBalance\<close> to \<open>savedProfit\<close> and sets \<open>balance\<close> to \<open>baseBalance\<close>, touching
  nothing else; otherwise it changes nothing; and sweeping twice is sweeping once.
\<close>

theorem checkCompoundLimit_sweep_idempotent:
  "(compoundLimit cfg > 0 \<and> Engine.balance s > compoundLimit cfg \<longrightarrow>
      checkCompoundLimit cfg s =
        s\<lparr> Engine.savedProfit := Engine.savedProfit s + (Engine.balance s - baseBalance cfg),
           Engine.balance := baseBalance cfg \<rparr>)
   \<and> (\<not> (compoundLimit cfg > 0 \<and> Engine.balance s > compoundLimit cfg) \<longrightarrow>
      checkCompoundLimit cfg s = s)
   \<and> checkCompoundLimit cfg (checkCompoundLimit cfg s) = checkCompoundLimit cfg s"
  by (simp add: checkCompoundLimit_def)

theorem checkCompoundLimit_sweep_idempotent_witness:
  "compoundLimit compoundConfig > 0
   \<and> Engine.balance ((newEngine compoundConfig)\<lparr> Engine.balance := 20 \<rparr>)
        > compoundLimit compoundConfig
   \<and> Engine.balance (checkCompoundLimit compoundConfig
        ((newEngine compoundConfig)\<lparr> Engine.balance := 20 \<rparr>)) = 10
   \<and> Engine.savedProfit (checkCompoundLimit compoundConfig
        ((newEngine compoundConfig)\<lparr> Engine.balance := 20 \<rparr>))
      = Engine.savedProfit (newEngine compoundConfig) + 10"
  using checkCompoundLimit_sweep_idempotent
          [of compoundConfig "(newEngine compoundConfig)\<lparr> Engine.balance := 20 \<rparr>"]
  by (simp add: compoundConfig_def ladderConfig_def newEngine_def)


section \<open>Evaluation of the engine on concrete inputs\<close>

lemmas engine_defs =
  runEngine_def newEngine_def allTicksSorted_def collectTicks_def marketMapOf_def
  runLoopBody_def expirePositionMarket_def expireLadderMarket_def processTick_def checkEntry_def checkStopLoss_def executeEntry_def
  executeExit_def closePositionAtExpiry_def checkCompoundLimit_def
  processLadderTick_def processLadderStateTick_def processLadderStep_def dateNow_def initializeLadderState_def
  executeLadderBuyStep_def executeLadderSellStep_def executeLadderStopLoss_def
  getActiveStopLossStep_def stopLossScan.simps getActiveStep.simps getOpenLadderShares_def
  calculateStepSize_def recordLadderTrade_def resetLadderState_def closeLadderAtExpiry_def
  skipLadderStep_def Let_def

lemmas input_defs =
  step1_def ladderConfig_def makeTick_def makeMarket_def compoundConfig_def normalConfig_def
  heldPosition_def heldEngine_def makeTick2_def makeMarket2_def interleavedMarkets_def
  emptyMarket_def tickAbove_def tickAtTrigger_def tickBelowTrigger_def
  zeroClock_def boughtEngine_def tickStopLoss_def tickZeroBid_def
  stoppedEngine_def tickUnderTrigger_def tickRecovered_def

section \<open>Entry filter\<close>

lemma checkEntry_changes:
  assumes "checkEntry cfg tick market s \<noteq> s"
  shows "entryFilter cfg tick market \<and> bestAsk tick < profitTarget cfg"
  using assms unfolding checkEntry_def Let_def entryFilter_def
  by (auto split: if_splits)

lemma processLadderTick_start:
  assumes "ladderState s = None" "processLadderTick clk cfg tick market s \<noteq> s"
  shows "entryFilter cfg tick market"
proof -
  have "\<not> (endDate market - PriceTick.timestamp tick \<le> 0
           \<or> endDate market - PriceTick.timestamp tick > timeWindowMs cfg)"
    using assms unfolding processLadderTick_def Let_def by (auto split: if_splits)
  moreover have "\<not> bestAsk tick - bestBid tick > maxSpread cfg"
    using assms unfolding processLadderTick_def Let_def by (auto split: if_splits)
  moreover have "\<not> (bestAsk tick < entryThreshold cfg \<or> bestAsk tick > maxEntryPrice cfg)"
    using assms unfolding processLadderTick_def Let_def by (auto split: if_splits)
  ultimately show ?thesis unfolding entryFilter_def by auto
qed

lemma spread_no_entry:
  assumes "bestAsk tick - bestBid tick > maxSpread cfg"
  shows "checkEntry cfg tick market s = s"
    and "ladderState s = None \<Longrightarrow> processLadderTick clk cfg tick market s = s"
  using assms unfolding checkEntry_def processLadderTick_def Let_def
  by (auto split: if_splits)

text \<open>
  C6. A tick changes an engine that holds nothing (no position in normal mode, no ladder
  in ladder mode) only if the time remaining until the market's end is in
  \<open>(0, timeWindowMs]\<close>, \<open>ask - bid \<le> maxSpread\<close> and
  \<open>entryThreshold \<le> ask \<le> maxEntryPrice\<close>, and in normal mode \<open>ask < profitTarget\<close>.
  When \<open>ask - bid > maxSpread\<close>, \<open>checkEntry\<close> returns the engine unchanged and
  so does the tick as a whole, in either mode, whatever the other parameters.
\<close>

theorem no_entry_unless_filter_passes:
  "(riskMode cfg \<noteq> ''ladder'' \<and> position s = None \<and> processTick clk cfg tick market s \<noteq> s \<longrightarrow>
      0 < endDate market - PriceTick.timestamp tick
      \<and> endDate market - PriceTick.timestamp tick \<le> timeWindowMs cfg
      \<and> bestAsk tick - bestBid tick \<le> maxSpread cfg
      \<and> entryThreshold cfg \<le> bestAsk tick \<and> bestAsk tick \<le> maxEntryPrice cfg
      \<and> bestAsk tick < profitTarget cfg)
   \<and> (riskMode cfg = ''ladder'' \<and> ladderState s = None \<and> processTick clk cfg tick market s \<noteq> s \<longrightarrow>
      0 < endDate market - PriceTick.timestamp tick
      \<and> endDate market - PriceTick.timestamp tick \<le> timeWindowMs cfg
      \<and> bestAsk tick - bestBid tick \<le> maxSpread cfg
      \<and> entryThreshold cfg \<le> bestAsk tick \<and> bestAsk tick \<le> maxEntryPrice cfg)
   \<and> (bestAsk tick - bestBid tick > maxSpread cfg \<longrightarrow>
      checkEntry cfg tick market s = s
      \<and> (position s = None \<and> ladderState s = None \<longrightarrow> processTick clk cfg tick market s = s))"
proof (intro conjI impI)
  assume a: "riskMode cfg \<noteq> ''ladder'' \<and> position s = None \<and> processTick clk cfg tick market s \<noteq> s"
  then have "checkEntry cfg tick market s \<noteq> s"
    by (auto simp: processTick_def split: if_splits)
  from checkEntry_changes [OF this]
  show "0 < endDate market - PriceTick.timestamp tick"
    "endDate market - PriceTick.timestamp tick \<le> timeWindowMs cfg"
    "bestAsk tick - bestBid tick \<le> maxSpread cfg"
    "entryThreshold cfg \<le> bestAsk tick" "bestAsk tick \<le> maxEntryPrice cfg"
    "bestAsk tick < profitTarget cfg"
    by (simp_all add: entryFilter_def)
next
  assume a: "riskMode cfg = ''ladder'' \<and> ladderState s = None \<and> processTick clk cfg tick market s \<noteq> s"
  then have "processLadderTick clk cfg tick market s \<noteq> s" "ladderState s = None"
    by (auto simp: processTick_def split: if_splits)
  from processLadderTick_start [OF this(2,1)]
  show "0 < endDate market - PriceTick.timestamp tick"
    "endDate market - PriceTick.timestamp tick \<le> timeWindowMs cfg"
    "bestAsk tick - bestBid tick \<le> maxSpread cfg"
    "entryThreshold cfg \<le> bestAsk tick" "bestAsk tick \<le> maxEntryPrice cfg"
    by (simp_all add: entryFilter_def)
next
  assume sp: "bestAsk tick - bestBid tick > maxSpread cfg"
  show "checkEntry cfg tick market s = s" by (rule spread_no_entry(1) [OF sp])
  assume "position s = None \<and> ladderState s = None"
  then show "processTick clk cfg tick market s = s"
    using spread_no_entry(1) [OF sp, of market s] spread_no_entry(2) [OF sp, of s clk market]
    by (simp add: processTick_def)
qed

theorem no_entry_unless_filter_passes_witness:
  "riskMode normalConfig \<noteq> ''ladder'' \<and> position (newEngine normalConfig) = None
   \<and> processTick zeroClock normalConfig (makeTick 60000 0.64 0.65) (makeMarket [] None)
        (newEngine normalConfig) \<noteq> newEngine normalConfig
   \<and> bestAsk (makeTick 60000 0.64 0.65) < profitTarget normalConfig
   \<and> riskMode ladderConfig = ''ladder'' \<and> ladderState (newEngine ladderConfig) = None
   \<and> processTick zeroClock ladderConfig (makeTick 60000 0.64 0.65) (makeMarket [] None)
        (newEngine ladderConfig) \<noteq> newEngine ladderConfig
   \<and> bestAsk (makeTick 60000 0.64 0.65) \<le> maxEntryPrice ladderConfig
   \<and> bestAsk (makeTick 60000 0.5 0.65) - bestBid (makeTick 60000 0.5 0.65) > maxSpread normalConfig
   \<and> processTick zeroClock normalConfig (makeTick 60000 0.5 0.65) (makeMarket [] None)
        (newEngine normalConfig) = newEngine normalConfig"
proof -
  have n: "processTick zeroClock normalConfig (makeTick 60000 0.64 0.65) (makeMarket [] None)
        (newEngine normalConfig) \<noteq> newEngine normalConfig"
  proof
    assume "processTick zeroClock normalConfig (makeTick 60000 0.64 0.65) (makeMarket [] None)
        (newEngine normalConfig) = newEngine normalConfig"
    then have "position (processTick zeroClock normalConfig (makeTick 60000 0.64 0.65)
        (makeMarket [] None) (newEngine normalConfig)) = position (newEngine normalConfig)"
      by simp
    then show False by (simp add: engine_defs input_defs)
  qed
  have l: "processTick zeroClock ladderConfig (makeTick 60000 0.64 0.65) (makeMarket [] None)
        (newEngine ladderConfig) \<noteq> newEngine ladderConfig"
  proof
    assume "processTick zeroClock ladderConfig (makeTick 60000 0.64 0.65) (makeMarket [] None)
        (newEngine ladderConfig) = newEngine ladderConfig"
    then have "ladderState (processTick zeroClock ladderConfig (makeTick 60000 0.64 0.65)
        (makeMarket [] None) (newEngine ladderConfig)) = ladderState (newEngine ladderConfig)"
      by simp
    then show False by (simp add: engine_defs input_defs)
  qed
  have h: "riskMode normalConfig \<noteq> ''ladder''" "position (newEngine normalConfig) = None"
    "riskMode ladderConfig = ''ladder''" "ladderState (newEngine ladderConfig) = None"
    "ladderState (newEngine normalConfig) = None"
    "bestAsk (makeTick 60000 0.5 0.65) - bestBid (makeTick 60000 0.5 0.65) > maxSpread normalConfig"
    by (simp_all add: input_defs newEngine_def)
  show ?thesis
    using no_entry_unless_filter_passes [of normalConfig "newEngine normalConfig" zeroClock
        "makeTick 60000 0.64 0.65" "makeMarket [] None"]
      no_entry_unless_filter_passes [of ladderConfig "newEngine ladderConfig" zeroClock
        "makeTick 60000 0.64 0.65" "makeMarket [] None"]
      no_entry_unless_filter_passes [of normalConfig "newEngine normalConfig" zeroClock
        "makeTick 60000 0.5 0.65" "makeMarket [] None"]
      n l h
    by blast
qed


section \<open>Normal mode: entry and close\<close>

lemma executeExit_result:
  assumes "position s = Some p"
  shows "executeExit cfg x ts reason s =
     (let x' = (if reason = STOP_LOSS then max (x * (1 - slippage cfg)) 0.01 else x);
          t = closedTrade p x' ts reason
      in checkCompoundLimit cfg
           (s\<lparr> Engine.trades := Engine.trades s @ [t], lastTrade := Some t,
               Engine.balance := x' * SimulatedPosition.shares p,
               Engine.equityCurve := Engine.equityCurve s @
                  [\<lparr> EquityPoint.timestamp = ts,
                     EquityPoint.balance = x' * SimulatedPosition.shares p \<rparr>],
               peakBalance := max (peakBalance s) (x' * SimulatedPosition.shares p),
               position := None \<rparr>))"
  using assms
  by (simp add: executeExit_def Let_def closedTrade_def max_def)

lemma checkCompoundLimit_fields [simp]:
  "Engine.trades (checkCompoundLimit cfg s) = Engine.trades s"
  "lastTrade (checkCompoundLimit cfg s) = lastTrade s"
  "position (checkCompoundLimit cfg s) = position s"
  "ladderState (checkCompoundLimit cfg s) = ladderState s"
  "Engine.equityCurve (checkCompoundLimit cfg s) = Engine.equityCurve s"
  "peakBalance (checkCompoundLimit cfg s) = peakBalance s"
  "ladderMarketLocks (checkCompoundLimit cfg s) = ladderMarketLocks s"
  "currentMarket (checkCompoundLimit cfg s) = currentMarket s"
  "nowCalls (checkCompoundLimit cfg s) = nowCalls s"
  by (simp_all add: checkCompoundLimit_def)

lemma checkCompoundLimit_balance:
  "Engine.balance (checkCompoundLimit cfg s) =
     (if compoundLimit cfg > 0 \<and> Engine.balance s > compoundLimit cfg then baseBalance cfg
      else Engine.balance s)"
  by (simp add: checkCompoundLimit_def)

text \<open>
  C5, refuted as stated. An engine with the compounding sweep on (limit 15, base 10) holds
  20 shares bought at 0.50; a tick with bid 0.99 closes them at the profit target 0.99.
  The trade records PnL \<open>(0.99 - 0.50) * 20\<close>, but the balance after the close is 10, not
  \<open>0.99 * 20 = 19.8\<close>.
\<close>

theorem normal_close_balance_counterexample:
  "riskMode compoundConfig \<noteq> ''ladder'' \<and> position heldEngine = Some heldPosition
   \<and> map exitPrice (Engine.trades (processTick zeroClock compoundConfig (makeTick 120000 0.99 1)
        (makeMarket [] None) heldEngine)) = [0.99]
   \<and> Engine.balance (processTick zeroClock compoundConfig (makeTick 120000 0.99 1)
        (makeMarket [] None) heldEngine) = 10
   \<and> Engine.balance (processTick zeroClock compoundConfig (makeTick 120000 0.99 1)
        (makeMarket [] None) heldEngine) \<noteq> 0.99 * SimulatedPosition.shares heldPosition"
  by (simp add: engine_defs input_defs)

text \<open>
  C5, amended. An entry taken with balance \<open>B\<close> at ask \<open>A\<close> (the effective price
  \<open>min (A * (1 + slippage)) 0.99\<close> not being zero) creates the position with that entry
  price and \<open>B / effective price\<close> shares, which is \<open>B / A\<close> when the slippage is zero and
  \<open>A \<le> 0.99\<close>, and leaves balance 0. A close of position \<open>p\<close> at price \<open>x\<close> records one
  trade at the exit price \<open>x'\<close> (\<open>x\<close> itself, or \<open>max (x * (1 - slippage)) 0.01\<close> for a
  stop-loss exit) with PnL \<open>(x' - entryPrice) * shares\<close>, sets the balance to
  \<open>x' * shares\<close> and then applies the compounding sweep: the balance left is
  \<open>x' * shares\<close>, unless \<open>compoundLimit > 0\<close> and \<open>x' * shares > compoundLimit\<close>, when it is
  \<open>baseBalance\<close>.
\<close>

theorem normal_entry_and_close_arithmetic:
  assumes "min (bestAsk tick * (1 + slippage cfg)) 0.99 \<noteq> 0"
    and "checkEntry cfg tick market s \<noteq> s"
    and "position s' = Some p"
    and "x' = (if reason = STOP_LOSS then max (x * (1 - slippage cfg)) 0.01 else x)"
  shows "position (checkEntry cfg tick market s) =
           Some \<lparr> SimulatedPosition.tokenId = PriceTick.tokenId tick,
                  SimulatedPosition.marketSlug = slug market,
                  SimulatedPosition.side = tickSide tick market,
                  SimulatedPosition.shares =
                    Engine.balance s / min (bestAsk tick * (1 + slippage cfg)) 0.99,
                  SimulatedPosition.entryPrice = min (bestAsk tick * (1 + slippage cfg)) 0.99,
                  SimulatedPosition.entryTimestamp = PriceTick.timestamp tick \<rparr>
       \<and> Engine.balance (checkEntry cfg tick market s) = 0
       \<and> (slippage cfg = 0 \<and> bestAsk tick \<le> 0.99 \<longrightarrow>
            SimulatedPosition.shares (the (position (checkEntry cfg tick market s)))
              = Engine.balance s / bestAsk tick)
       \<and> Engine.trades (executeExit cfg x ts reason s')
            = Engine.trades s' @ [closedTrade p x' ts reason]
       \<and> pnl (last (Engine.trades (executeExit cfg x ts reason s')))
            = (x' - SimulatedPosition.entryPrice p) * SimulatedPosition.shares p
       \<and> position (executeExit cfg x ts reason s') = None
       \<and> Engine.balance (executeExit cfg x ts reason s') =
            (if compoundLimit cfg > 0 \<and> x' * SimulatedPosition.shares p > compoundLimit cfg
             then baseBalance cfg else x' * SimulatedPosition.shares p)"
proof -
  have e: "checkEntry cfg tick market s = executeEntry cfg tick market (tickSide tick market) s"
    using assms(2) unfolding checkEntry_def Let_def tickSide_def
    by (auto split: if_splits)
  have ex: "executeExit cfg x ts reason s' =
      checkCompoundLimit cfg
           (s'\<lparr> Engine.trades := Engine.trades s' @ [closedTrade p x' ts reason],
               lastTrade := Some (closedTrade p x' ts reason),
               Engine.balance := x' * SimulatedPosition.shares p,
               Engine.equityCurve := Engine.equityCurve s' @
                  [\<lparr> EquityPoint.timestamp = ts,
                     EquityPoint.balance = x' * SimulatedPosition.shares p \<rparr>],
               peakBalance := max (peakBalance s') (x' * SimulatedPosition.shares p),
               position := None \<rparr>)"
    using executeExit_result [OF assms(3), of cfg x ts reason] assms(4)
    by (simp add: Let_def)
  show ?thesis
    unfolding e ex
    by (simp add: executeEntry_def Let_def checkCompoundLimit_balance closedTrade_def)
qed

theorem normal_entry_and_close_arithmetic_witness:
  "min (bestAsk (makeTick 60000 0.64 0.65) * (1 + slippage compoundConfig)) 0.99 \<noteq> 0
   \<and> checkEntry compoundConfig (makeTick 60000 0.64 0.65) (makeMarket [] None)
        (newEngine compoundConfig) \<noteq> newEngine compoundConfig
   \<and> SimulatedPosition.shares (the (position (checkEntry compoundConfig
        (makeTick 60000 0.64 0.65) (makeMarket [] None) (newEngine compoundConfig))))
        = 100 / 0.65
   \<and> position heldEngine = Some heldPosition
   \<and> pnl (last (Engine.trades (executeExit compoundConfig 0.39 120000 STOP_LOSS heldEngine)))
        = (0.39 - 0.5) * 20
   \<and> Engine.balance (executeExit compoundConfig 0.39 120000 STOP_LOSS heldEngine) = 0.39 * 20
   \<and> Engine.balance (executeExit compoundConfig 0.99 120000 PROFIT_TARGET heldEngine) = 10"
proof -
  have h1: "min (bestAsk (makeTick 60000 0.64 0.65) * (1 + slippage compoundConfig)) 0.99 \<noteq> 0"
    by (simp add: input_defs)
  have h2: "checkEntry compoundConfig (makeTick 60000 0.64 0.65) (makeMarket [] None)
        (newEngine compoundConfig) \<noteq> newEngine compoundConfig"
  proof
    assume "checkEntry compoundConfig (makeTick 60000 0.64 0.65) (makeMarket [] None)
        (newEngine compoundConfig) = newEngine compoundConfig"
    then have "position (checkEntry compoundConfig (makeTick 60000 0.64 0.65)
        (makeMarket [] None) (newEngine compoundConfig)) = position (newEngine compoundConfig)"
      by simp
    then show False by (simp add: engine_defs input_defs)
  qed
  have h3: "position heldEngine = Some heldPosition"
    by (simp add: input_defs newEngine_def)
  have v: "slippage compoundConfig = 0" "bestAsk (makeTick 60000 0.64 0.65) = 0.65"
    "Engine.balance (newEngine compoundConfig) = 100"
    "SimulatedPosition.entryPrice heldPosition = 0.5" "SimulatedPosition.shares heldPosition = 20"
    "compoundLimit compoundConfig = 15" "baseBalance compoundConfig = 10"
    by (simp_all add: input_defs newEngine_def)
  show ?thesis
    using normal_entry_and_close_arithmetic [where x = "0.39" and reason = STOP_LOSS and ts = 120000, OF h1 h2 h3 refl]
      normal_entry_and_close_arithmetic [where x = "0.99" and reason = PROFIT_TARGET and ts = 120000, OF h1 h2 h3 refl]
      h1 h2 h3
    by (simp add: v makeTick_def closedTrade_def)
qed


section \<open>Opposite-side rule\<close>

text \<open>
  C8, refuted as stated. Normal mode, two markets whose ticks interleave. UP of the first
  market is bought at 0.65 and closed at the profit target 0.99, a win. UP of the second
  market is then bought and stopped out. The next tick of the first market offers UP at
  0.65 again: UP most recently won in that market, yet the engine enters (and the position
  is closed when the market resolves), because \<open>lastTrade\<close> now is the trade of the second
  market.
\<close>

theorem opposite_side_rule_counterexample:
  "map BacktestTrade.marketSlug
     (Engine.trades (runEngine zeroClock normalConfig interleavedMarkets (newEngine normalConfig)))
   = [''btc-updown-15m-1'', ''btc-updown-15m-2'', ''btc-updown-15m-1'']
   \<and> map BacktestTrade.side
     (Engine.trades (runEngine zeroClock normalConfig interleavedMarkets (newEngine normalConfig)))
   = [UP, UP, UP]
   \<and> map exitReason
     (Engine.trades (runEngine zeroClock normalConfig interleavedMarkets (newEngine normalConfig)))
   = [PROFIT_TARGET, STOP_LOSS, MARKET_RESOLVED]
   \<and> map exitPrice
     (Engine.trades (runEngine zeroClock normalConfig interleavedMarkets (newEngine normalConfig)))
   = [0.99, 0.39, 0.99]
   \<and> map BacktestTrade.entryTimestamp
     (Engine.trades (runEngine zeroClock normalConfig interleavedMarkets (newEngine normalConfig)))
   = [60000, 180000, 300000]"
  by (simp add: engine_defs input_defs)

text \<open>
  C8, amended. For a tick that satisfies the other entry constraints (time window, spread,
  price band, below the profit target), \<open>checkEntry\<close> leaves the engine unchanged when the
  engine's most recent trade, over all markets, was in this market, on this tick's side,
  with positive PnL; in every other case it enters. In particular a side whose trade was
  the most recent one and lost (PnL not positive, as after a losing stop-loss) is entered
  again.
\<close>

theorem opposite_side_rule_last_trade:
  assumes "entryFilter cfg tick market" and "bestAsk tick < profitTarget cfg"
  shows "(\<forall>lt. lastTrade s = Some lt \<and> BacktestTrade.marketSlug lt = slug market
              \<and> BacktestTrade.side lt = tickSide tick market \<and> pnl lt > 0
            \<longrightarrow> checkEntry cfg tick market s = s
                \<and> (ladderState s = None \<longrightarrow> processLadderTick clk cfg tick market s = s))
       \<and> (lastTrade s = None \<longrightarrow>
            checkEntry cfg tick market s = executeEntry cfg tick market (tickSide tick market) s)
       \<and> (\<forall>lt. lastTrade s = Some lt
              \<and> (BacktestTrade.marketSlug lt \<noteq> slug market
                  \<or> BacktestTrade.side lt \<noteq> tickSide tick market \<or> pnl lt \<le> 0)
            \<longrightarrow> checkEntry cfg tick market s = executeEntry cfg tick market (tickSide tick market) s)"
proof (intro conjI allI impI)
  fix lt
  assume w: "lastTrade s = Some lt \<and> BacktestTrade.marketSlug lt = slug market
              \<and> BacktestTrade.side lt = tickSide tick market \<and> pnl lt > 0"
  then show "checkEntry cfg tick market s = s"
    unfolding checkEntry_def tickSide_def Let_def by simp
  assume "ladderState s = None"
  with w show "processLadderTick clk cfg tick market s = s"
    unfolding processLadderTick_def tickSide_def Let_def by simp
next
  assume "lastTrade s = None"
  with assms
  show "checkEntry cfg tick market s = executeEntry cfg tick market (tickSide tick market) s"
    unfolding entryFilter_def checkEntry_def tickSide_def Let_def by auto
next
  fix lt
  assume "lastTrade s = Some lt
              \<and> (BacktestTrade.marketSlug lt \<noteq> slug market
                  \<or> BacktestTrade.side lt \<noteq> tickSide tick market \<or> pnl lt \<le> 0)"
  with assms
  show "checkEntry cfg tick market s = executeEntry cfg tick market (tickSide tick market) s"
    unfolding entryFilter_def checkEntry_def tickSide_def Let_def by auto
qed

theorem opposite_side_rule_last_trade_witness:
  "entryFilter normalConfig (makeTick 300000 0.64 0.65) (makeMarket [] None)
   \<and> bestAsk (makeTick 300000 0.64 0.65) < profitTarget normalConfig
   \<and> pnl (closedTrade heldPosition 0.99 120000 PROFIT_TARGET) > 0
   \<and> checkEntry normalConfig (makeTick 300000 0.64 0.65) (makeMarket [] None)
        ((newEngine normalConfig)
           \<lparr> lastTrade := Some (closedTrade heldPosition 0.99 120000 PROFIT_TARGET) \<rparr>)
      = (newEngine normalConfig)
           \<lparr> lastTrade := Some (closedTrade heldPosition 0.99 120000 PROFIT_TARGET) \<rparr>
   \<and> pnl (closedTrade heldPosition 0.39 120000 STOP_LOSS) \<le> 0
   \<and> position (checkEntry normalConfig (makeTick 300000 0.64 0.65) (makeMarket [] None)
        ((newEngine normalConfig)
           \<lparr> lastTrade := Some (closedTrade heldPosition 0.39 120000 STOP_LOSS) \<rparr>))
      = position (executeEntry normalConfig (makeTick 300000 0.64 0.65) (makeMarket [] None) UP
        ((newEngine normalConfig)
           \<lparr> lastTrade := Some (closedTrade heldPosition 0.39 120000 STOP_LOSS) \<rparr>))"
proof -
  have f: "entryFilter normalConfig (makeTick 300000 0.64 0.65) (makeMarket [] None)"
    "bestAsk (makeTick 300000 0.64 0.65) < profitTarget normalConfig"
    by (simp_all add: entryFilter_def input_defs)
  have t: "tickSide (makeTick 300000 0.64 0.65) (makeMarket [] None) = UP"
    "slug (makeMarket [] None) = ''btc-updown-15m-1''"
    by (simp_all add: tickSide_def input_defs)
  have w: "pnl (closedTrade heldPosition 0.99 120000 PROFIT_TARGET) > 0"
    "pnl (closedTrade heldPosition 0.39 120000 STOP_LOSS) \<le> 0"
    "BacktestTrade.marketSlug (closedTrade heldPosition 0.99 120000 PROFIT_TARGET)
       = ''btc-updown-15m-1''"
    "BacktestTrade.side (closedTrade heldPosition 0.99 120000 PROFIT_TARGET) = UP"
    by (simp_all add: closedTrade_def input_defs)
  show ?thesis
    using opposite_side_rule_last_trade [OF f, of "(newEngine normalConfig)
           \<lparr> lastTrade := Some (closedTrade heldPosition 0.99 120000 PROFIT_TARGET) \<rparr>" zeroClock]
      opposite_side_rule_last_trade [OF f, of "(newEngine normalConfig)
           \<lparr> lastTrade := Some (closedTrade heldPosition 0.39 120000 STOP_LOSS) \<rparr>" zeroClock]
      f w t
    by simp
qed

section \<open>Starting a ladder\<close>

lemma processLadderTick_created:
  assumes "ladderState s = None"
    and "ladderState (processLadderTick clk cfg tick market s) \<noteq> None"
  shows "slug market \<notin> ladderMarketLocks s"
    and "\<exists>fs. List.find enabled (ladderSteps cfg) = Some fs
              \<and> triggerPrice (buy fs) \<le> bestAsk tick"
proof -
  show "slug market \<notin> ladderMarketLocks s"
    using assms unfolding processLadderTick_def Let_def
    by (auto split: if_splits)
  have "List.find enabled (ladderSteps cfg) \<noteq> None"
    using assms unfolding processLadderTick_def Let_def
    by (auto split: if_splits option.splits)
  then obtain fs where fs: "List.find enabled (ladderSteps cfg) = Some fs" by auto
  have "\<not> bestAsk tick < triggerPrice (buy fs)"
    using assms fs unfolding processLadderTick_def Let_def
    by (auto split: if_splits option.splits)
  with fs show "\<exists>fs. List.find enabled (ladderSteps cfg) = Some fs
              \<and> triggerPrice (buy fs) \<le> bestAsk tick"
    by auto
qed

lemma processLadderTick_eligible:
  assumes "ladderState s = None" and "ladderEntryEligible cfg tick market s"
    and "List.find enabled (ladderSteps cfg) = Some fs"
  shows "processLadderTick clk cfg tick market s =
     (if bestAsk tick < triggerPrice (buy fs) then s
      else if \<bar>bestAsk tick - triggerPrice (buy fs)\<bar> \<le> 0.005
        then executeLadderBuyStep cfg tick (freshLadder clk tick market s) fs
               (s\<lparr> nowCalls := Suc (nowCalls s),
                   ladderState := Some (freshLadder clk tick market s) \<rparr>)
      else s\<lparr> nowCalls := Suc (nowCalls s),
              ladderState := Some (freshLadder clk tick market s) \<rparr>)"
proof -
  have lt: "\<not> (case lastTrade s of None \<Rightarrow> False
             | Some lt \<Rightarrow> BacktestTrade.marketSlug lt = slug market
                 \<and> BacktestTrade.side lt = (if PriceTick.tokenId tick = upTokenId market then UP else DOWN)
                 \<and> pnl lt > 0)"
    using assms(2) unfolding ladderEntryEligible_def tickSide_def
    by (auto split: option.splits)
  have f: "\<not> (endDate market - PriceTick.timestamp tick \<le> 0
             \<or> endDate market - PriceTick.timestamp tick > timeWindowMs cfg)"
    "\<not> bestAsk tick - bestBid tick > maxSpread cfg"
    "\<not> (bestAsk tick < entryThreshold cfg \<or> bestAsk tick > maxEntryPrice cfg)"
    "length (ladderSteps cfg) \<noteq> 0" "\<not> Engine.balance s < 1"
    "slug market \<notin> ladderMarketLocks s"
    using assms(2) unfolding ladderEntryEligible_def entryFilter_def by auto
  show ?thesis
    unfolding processLadderTick_def Let_def
    using assms(1,3) lt f
    by (simp add: dateNow_def freshLadder_def tickSide_def)
qed

lemma executeLadderBuyStep_fresh:
  assumes "completedSteps ls = []" and "skippedSteps ls = []"
    and "b = calculateStepSize Buy (buy step) ls (Engine.balance s) (bestAsk tick)"
    and "r = executeLadderBuyStep cfg tick ls step s"
  shows "(b < 1 \<longrightarrow> Engine.balance r = Engine.balance s
            \<and> ladderState r = Some (ls\<lparr> skippedSteps := [stepId step],
                  skippedReasons := AList.update (stepId step) ''insufficient_balance''
                                       (skippedReasons ls),
                  currentStepIndex := currentStepIndex ls + 1, currentStepPhase := Buy \<rparr>))
       \<and> (b \<ge> 1 \<longrightarrow> Engine.balance r = Engine.balance s - b
            \<and> ladderState r = Some (ls\<lparr>
                  totalShares := totalShares ls + b / min (bestAsk tick * (1 + slippage cfg)) 0.99,
                  totalCostBasis := totalCostBasis ls + b,
                  averageEntryPrice := (totalCostBasis ls + b)
                     / (totalShares ls + b / min (bestAsk tick * (1 + slippage cfg)) 0.99),
                  lastStepTime := PriceTick.timestamp tick,
                  lastStepPrice := bestAsk tick,
                  currentStepPhase := Sell \<rparr>))"
  using assms
  by (simp add: executeLadderBuyStep_def Let_def skipLadderStep_def)

text \<open>
  C4, refuted as stated, on the replay engine. Ladder of the tests (first buy trigger 0.60), fresh engine with
  balance 100, market not locked, a tick with bid 0.59 and ask 0.598 that passes the entry
  filter. The ask is below the trigger and within 0.005 of it, yet no buy fires: the engine
  is unchanged, no ladder exists.
\<close>

theorem ladder_start_below_trigger_counterexample:
  "ladderEntryEligible ladderConfig tickBelowTrigger emptyMarket (newEngine ladderConfig)
   \<and> List.find enabled (ladderSteps ladderConfig) = Some step1
   \<and> bestAsk tickBelowTrigger \<le> triggerPrice (buy step1)
   \<and> \<bar>bestAsk tickBelowTrigger - triggerPrice (buy step1)\<bar> \<le> 0.005
   \<and> processTick zeroClock ladderConfig tickBelowTrigger emptyMarket (newEngine ladderConfig)
       = newEngine ladderConfig"
  by (simp add: ladderEntryEligible_def entryFilter_def tickSide_def engine_defs input_defs)

text \<open>
  C4, amended, for the replay engine. On an engine without a ladder, \<open>processLadderTick\<close>
  creates one only if the market is not in the lock set and the ask is at or above the
  first enabled step's buy trigger. When the tick is eligible (steps configured, balance at
  least 1, market not locked, entry filter passed, opposite-side rule silent) and \<open>fs\<close> is
  the first enabled step: with the ask below the trigger nothing happens; with the ask from
  the trigger up to 0.005 above it the ladder is created and the first buy step runs on the
  same tick (it buys \<open>b / entry price\<close> shares for the computed amount \<open>b\<close> when \<open>b \<ge> 1\<close>,
  and records the step as skipped otherwise); with the ask more than 0.005 above the
  trigger the ladder is created waiting in the buy phase, no shares bought and the balance
  untouched.

  The live bot's \<open>enterPosition\<close> has the same lock check and the same return on an ask
  below the trigger. Its first buy is not part of this statement: \<open>enterPosition\<close> calls
  \<open>executeLadderBuyStep\<close> while it holds the entry guard of the token, and
  \<open>executeLadderBuyStep\<close> returns at once when that guard is held.
\<close>

theorem ladder_start_gating:
  assumes "ladderState s = None"
    and "r = processLadderTick clk cfg tick market s"
    and "b = calculateStepSize Buy (buy fs) (freshLadder clk tick market s) (Engine.balance s)
               (bestAsk tick)"
  shows "(ladderState r \<noteq> None \<longrightarrow>
            slug market \<notin> ladderMarketLocks s
            \<and> (\<exists>fs'. List.find enabled (ladderSteps cfg) = Some fs'
                    \<and> triggerPrice (buy fs') \<le> bestAsk tick))
       \<and> (ladderEntryEligible cfg tick market s \<and> List.find enabled (ladderSteps cfg) = Some fs \<longrightarrow>
            (bestAsk tick < triggerPrice (buy fs) \<longrightarrow> r = s)
          \<and> (triggerPrice (buy fs) \<le> bestAsk tick \<and> bestAsk tick \<le> triggerPrice (buy fs) + 0.005 \<longrightarrow>
                r = executeLadderBuyStep cfg tick (freshLadder clk tick market s) fs
                      (s\<lparr> nowCalls := Suc (nowCalls s),
                          ladderState := Some (freshLadder clk tick market s) \<rparr>)
                \<and> (b \<ge> 1 \<longrightarrow> Engine.balance r = Engine.balance s - b
                      \<and> (\<exists>ls. ladderState r = Some ls \<and> currentStepPhase ls = Sell
                            \<and> totalShares ls = b / min (bestAsk tick * (1 + slippage cfg)) 0.99
                            \<and> totalCostBasis ls = b))
                \<and> (b < 1 \<longrightarrow> Engine.balance r = Engine.balance s
                      \<and> (\<exists>ls. ladderState r = Some ls \<and> currentStepPhase ls = Buy
                            \<and> totalShares ls = 0 \<and> skippedSteps ls = [stepId fs])))
          \<and> (bestAsk tick > triggerPrice (buy fs) + 0.005 \<longrightarrow>
                r = s\<lparr> nowCalls := Suc (nowCalls s),
                       ladderState := Some (freshLadder clk tick market s) \<rparr>
                \<and> currentStepPhase (freshLadder clk tick market s) = Buy
                \<and> totalShares (freshLadder clk tick market s) = 0
                \<and> needsRecovery (freshLadder clk tick market s) = False))"
proof (intro conjI impI)
  assume "ladderState r \<noteq> None"
  then show "slug market \<notin> ladderMarketLocks s"
    "\<exists>fs'. List.find enabled (ladderSteps cfg) = Some fs' \<and> triggerPrice (buy fs') \<le> bestAsk tick"
    using processLadderTick_created [OF assms(1), of clk cfg tick market] assms(2) by auto
next
  assume e: "ladderEntryEligible cfg tick market s \<and> List.find enabled (ladderSteps cfg) = Some fs"
  note eq = processLadderTick_eligible [OF assms(1) conjunct1 [OF e] conjunct2 [OF e], of clk]
  let ?fl = "freshLadder clk tick market s"
  let ?s2 = "s\<lparr> nowCalls := Suc (nowCalls s), ladderState := Some ?fl \<rparr>"
  have fl: "completedSteps ?fl = []" "skippedSteps ?fl = []" "totalShares ?fl = 0"
    "totalCostBasis ?fl = 0" "currentStepPhase ?fl = Buy" "needsRecovery ?fl = False"
    by (simp_all add: freshLadder_def initializeLadderState_def)
  have b2: "b = calculateStepSize Buy (buy fs) ?fl (Engine.balance ?s2) (bestAsk tick)"
    using assms(3) by simp
  note buy = executeLadderBuyStep_fresh [OF fl(1,2) b2 refl, of cfg]
  {
    assume "bestAsk tick < triggerPrice (buy fs)"
    then show "r = s" using eq assms(2) by simp
  }
  {
    assume a: "triggerPrice (buy fs) \<le> bestAsk tick \<and> bestAsk tick \<le> triggerPrice (buy fs) + 0.005"
    then have "\<bar>bestAsk tick - triggerPrice (buy fs)\<bar> \<le> 0.005" by auto
    with a eq assms(2) show req: "r = executeLadderBuyStep cfg tick ?fl fs ?s2" by simp
    {
      assume "b \<ge> 1"
      with buy req show "Engine.balance r = Engine.balance s - b"
        "\<exists>ls. ladderState r = Some ls \<and> currentStepPhase ls = Sell
            \<and> totalShares ls = b / min (bestAsk tick * (1 + slippage cfg)) 0.99
            \<and> totalCostBasis ls = b"
        using fl by simp_all
    }
    {
      assume "b < 1"
      with buy req show "Engine.balance r = Engine.balance s"
        "\<exists>ls. ladderState r = Some ls \<and> currentStepPhase ls = Buy
            \<and> totalShares ls = 0 \<and> skippedSteps ls = [stepId fs]"
        using fl by simp_all
    }
  }
  {
    assume a: "bestAsk tick > triggerPrice (buy fs) + 0.005"
    then have "\<not> \<bar>bestAsk tick - triggerPrice (buy fs)\<bar> \<le> 0.005" by auto
    with a eq assms(2) show "r = ?s2" by simp
    show "currentStepPhase ?fl = Buy" "totalShares ?fl = 0" "needsRecovery ?fl = False"
      by (rule fl)+
  }
qed

theorem ladder_start_gating_witness:
  "ladderState (newEngine ladderConfig) = None
   \<and> ladderEntryEligible ladderConfig tickAtTrigger emptyMarket (newEngine ladderConfig)
   \<and> List.find enabled (ladderSteps ladderConfig) = Some step1
   \<and> (\<exists>ls. ladderState (processLadderTick zeroClock ladderConfig tickAtTrigger emptyMarket
                 (newEngine ladderConfig)) = Some ls
          \<and> currentStepPhase ls = Sell \<and> totalShares ls = 100 / 0.6)
   \<and> Engine.balance (processLadderTick zeroClock ladderConfig tickAtTrigger emptyMarket
          (newEngine ladderConfig)) = 0
   \<and> ladderEntryEligible ladderConfig tickAbove emptyMarket (newEngine ladderConfig)
   \<and> processLadderTick zeroClock ladderConfig tickAbove emptyMarket (newEngine ladderConfig)
      = (newEngine ladderConfig)
          \<lparr> nowCalls := 1,
            ladderState := Some (freshLadder zeroClock tickAbove emptyMarket
                                   (newEngine ladderConfig)) \<rparr>"
proof -
  let ?s = "newEngine ladderConfig"
  have i: "ladderState ?s = None" by (simp add: newEngine_def)
  have e: "ladderEntryEligible ladderConfig tickAtTrigger emptyMarket ?s"
    "ladderEntryEligible ladderConfig tickAbove emptyMarket ?s"
    by (simp_all add: ladderEntryEligible_def entryFilter_def tickSide_def input_defs
        newEngine_def)
  have f: "List.find enabled (ladderSteps ladderConfig) = Some step1"
    by (simp add: input_defs)
  have c: "triggerPrice (buy step1) \<le> bestAsk tickAtTrigger
           \<and> bestAsk tickAtTrigger \<le> triggerPrice (buy step1) + 0.005"
    "bestAsk tickAbove > triggerPrice (buy step1) + 0.005"
    by (simp_all add: input_defs)
  have b: "calculateStepSize Buy (buy step1) (freshLadder zeroClock tickAtTrigger emptyMarket ?s)
             (Engine.balance ?s) (bestAsk tickAtTrigger) = 100"
    by (simp add: calculateStepSize_def input_defs newEngine_def)
  have p: "min (bestAsk tickAtTrigger * (1 + slippage ladderConfig)) 0.99 = 0.6"
    "Engine.balance ?s = 100" "nowCalls ?s = 0"
    by (simp_all add: input_defs newEngine_def)
  note t1 = ladder_start_gating [where fs = step1 and clk = zeroClock and cfg = ladderConfig
            and tick = tickAtTrigger and market = emptyMarket, OF i refl refl]
  note t2 = ladder_start_gating [where fs = step1 and clk = zeroClock and cfg = ladderConfig
            and tick = tickAbove and market = emptyMarket, OF i refl refl]
  have r1: "Engine.balance (processLadderTick zeroClock ladderConfig tickAtTrigger emptyMarket ?s)
              = Engine.balance ?s - 100
          \<and> (\<exists>ls. ladderState (processLadderTick zeroClock ladderConfig tickAtTrigger
                        emptyMarket ?s) = Some ls
                \<and> currentStepPhase ls = Sell
                \<and> totalShares ls
                    = 100 / min (bestAsk tickAtTrigger * (1 + slippage ladderConfig)) 0.99
                \<and> totalCostBasis ls = 100)"
  proof -
    have "(1::real) \<le> 100" by simp
    with t1 e(1) f c(1) show ?thesis unfolding b by blast
  qed
  have r2: "processLadderTick zeroClock ladderConfig tickAbove emptyMarket ?s
      = ?s\<lparr> nowCalls := Suc (nowCalls ?s),
            ladderState := Some (freshLadder zeroClock tickAbove emptyMarket ?s) \<rparr>"
    using t2 e(2) f c(2) by blast
  show ?thesis
    using i e f r1 r2 unfolding p by auto
qed

section \<open>Ladder stop-loss\<close>






lemma recordLadderTrade_fields [simp]:
  "Engine.trades (recordLadderTrade t s) = Engine.trades s @ [t]"
  "lastTrade (recordLadderTrade t s) = Some t"
  "Engine.balance (recordLadderTrade t s) = Engine.balance s"
  "Engine.savedProfit (recordLadderTrade t s) = Engine.savedProfit s"
  "position (recordLadderTrade t s) = position s"
  "ladderState (recordLadderTrade t s) = ladderState s"
  "ladderMarketLocks (recordLadderTrade t s) = ladderMarketLocks s"
  "currentMarket (recordLadderTrade t s) = currentMarket s"
  "nowCalls (recordLadderTrade t s) = nowCalls s"
  "Engine.equityCurve (recordLadderTrade t s) = Engine.equityCurve s @
      [\<lparr> EquityPoint.timestamp = exitTimestamp t, EquityPoint.balance = Engine.balance s \<rparr>]"
  by (simp_all add: recordLadderTrade_def Let_def)


lemma boughtEngine_value:
  "boughtEngine =
     (newEngine ladderConfig)
       \<lparr> Engine.balance := 0, nowCalls := 1,
         ladderState := Some
           ((initializeLadderState 0 ''UP'' UP ''btc-updown-15m-1'' 900000)
              \<lparr> totalShares := 100 / 0.6, totalCostBasis := 100, averageEntryPrice := 0.6,
                lastStepTime := 120000, lastStepPrice := 0.6, currentStepPhase := Sell \<rparr>) \<rparr>"
  by (simp add: engine_defs input_defs)

text \<open>
  A bid of 0 is an empty book, not a price: \<open>processLadderStateTick\<close> asks for
  \<open>bestBid > 0\<close> before it compares the bid with the stop-loss. On the test ladder with
  166.67 unsold shares and stop-loss 0.40 a tick with best bid 0 sells nothing and leaves
  the engine as it is.
\<close>

lemma ladder_stop_loss_ignores_empty_book:
  "riskMode ladderConfig = ''ladder''
   \<and> getOpenLadderShares (the (ladderState boughtEngine)) = 100 / 0.6
   \<and> getActiveStopLossStep (the (ladderState boughtEngine)) (ladderSteps ladderConfig)
       = Some step1
   \<and> PriceTick.tokenId tickZeroBid = LadderState.tokenId (the (ladderState boughtEngine))
   \<and> bestBid tickZeroBid \<le> LadderStep.stopLoss step1
   \<and> Engine.trades (processTick zeroClock ladderConfig tickZeroBid emptyMarket boughtEngine) = []
   \<and> processTick zeroClock ladderConfig tickZeroBid emptyMarket boughtEngine = boughtEngine"
  unfolding boughtEngine_value
  by (simp add: engine_defs input_defs)



section \<open>Recovery gating\<close>

lemma getActiveStep_snd:
  "\<exists>j. snd (getActiveStep ls steps) = ls\<lparr> currentStepIndex := j \<rparr>"
  using getActiveStep_firstActionable [of ls steps]
  unfolding firstActionableFrom_def
  by (cases "getActiveStep ls steps") (auto split: option.splits)

lemma getActiveStep_find:
  "fst (getActiveStep ls steps) = List.find (actionable ls) (drop (currentStepIndex ls) steps)"
proof (induction ls steps rule: getActiveStep.induct)
  case (1 ls steps)
  show ?case
  proof (cases "currentStepIndex ls \<ge> length steps")
    case True
    then show ?thesis by (subst getActiveStep.simps) simp
  next
    case False
    then have d: "drop (currentStepIndex ls) steps
                  = steps ! currentStepIndex ls # drop (Suc (currentStepIndex ls)) steps"
      by (simp add: Cons_nth_drop_Suc)
    show ?thesis
    proof (cases "actionable ls (steps ! currentStepIndex ls)")
      case True
      with False show ?thesis
        unfolding d
        by (subst getActiveStep.simps) (simp add: Let_def actionable_def)
    next
      case na: False
      let ?ls = "ls\<lparr> currentStepIndex := currentStepIndex ls + 1 \<rparr>"
      have rec: "getActiveStep ls steps = getActiveStep ?ls steps"
        using False na
        by (subst getActiveStep.simps) (auto simp: Let_def actionable_def)
      have IH: "fst (getActiveStep ?ls steps)
                = List.find (actionable ?ls) (drop (currentStepIndex ?ls) steps)"
        using False na "1.IH"(1)[OF False refl] "1.IH"(2)[OF False refl]
          "1.IH"(3)[OF False refl]
        unfolding actionable_def by blast
      have a: "actionable ?ls = actionable ls" by (rule ext) simp
      show ?thesis
        unfolding rec IH d a using na by simp
    qed
  qed
qed

lemma getActiveStep_after_reset:
  assumes "currentStepIndex ls = 0" "completedSteps ls = []" "skippedSteps ls = []"
  shows "fst (getActiveStep ls steps) = List.find enabled steps"
proof -
  have "actionable ls = enabled"
    using assms by (intro ext) (simp add: actionable_def)
  then show ?thesis using assms(1) by (simp add: getActiveStep_find)
qed

lemma recovery_tick:
  assumes "ladderState s = Some ls" and "needsRecovery ls" and "recoveryInv ls"
    and "List.find enabled steps = Some fs"
  shows "processLadderStateTick clk cfg tick market steps s =
     (if bestAsk tick > 0 \<and> bestAsk tick > triggerPrice (buy fs)
      then s\<lparr> ladderState := Some (snd (getActiveStep
                  (ls\<lparr> needsRecovery := False, lastStepTime := PriceTick.timestamp tick \<rparr>)
                  steps)) \<rparr>
      else s)"
proof -
  let ?ls1 = "ls\<lparr> needsRecovery := False, lastStepTime := PriceTick.timestamp tick \<rparr>"
  have inv: "currentStepIndex ls = 0" "currentStepPhase ls = Buy" "completedSteps ls = []"
    "skippedSteps ls = []" "totalShares ls = 0" "totalSharesSold ls = 0" "status ls = Active"
    using assms(2,3) by (simp_all add: recoveryInv_def)
  have sh: "\<not> getOpenLadderShares ls > 0.01"
    using inv by (simp add: getOpenLadderShares_def)
  have nx: "fst (getActiveStep ?ls1 steps) = Some fs"
    using getActiveStep_after_reset [of ?ls1 steps] inv assms(4) by simp
  obtain j where j: "snd (getActiveStep ?ls1 steps) = ?ls1\<lparr> currentStepIndex := j \<rparr>"
    using getActiveStep_snd [of ?ls1 steps] by blast
  have ph: "currentStepPhase (snd (getActiveStep ?ls1 steps)) = Buy"
    unfolding j using inv by simp
  show ?thesis
  proof (cases "bestAsk tick > 0 \<and> bestAsk tick > triggerPrice (buy fs)")
    case False
    then show ?thesis
      using assms(1,2,4) sh inv(7)
      by (auto simp add: processLadderStateTick_def Let_def)
  next
    case True
    then have nobuy: "\<not> (bestAsk tick > 0 \<and> bestAsk tick \<le> triggerPrice (buy fs))" by simp
    show ?thesis
      using assms(1,2,4) sh inv(7) True nobuy nx ph
      by (simp add: processLadderStateTick_def processLadderStep_def Let_def case_prod_beta)
  qed
qed

lemma getActiveStep_needsRecovery [simp]:
  "needsRecovery (snd (getActiveStep ls steps)) = needsRecovery ls"
  using getActiveStep_snd [of ls steps] by auto

lemma ladderInv_simps:
  "ladderInv (s\<lparr> ladderState := None \<rparr>)"
  "\<not> needsRecovery ls \<Longrightarrow> ladderInv (s\<lparr> ladderState := Some ls \<rparr>)"
  "ladderState s = None \<Longrightarrow> ladderInv s"
  by (simp_all add: ladderInv_def recoveryInv_def)

lemma ladderInv_buy:
  "\<not> needsRecovery ls \<Longrightarrow> ladderInv (executeLadderBuyStep cfg tick ls step s)"
  by (simp add: executeLadderBuyStep_def Let_def skipLadderStep_def ladderInv_def recoveryInv_def)

lemma ladderInv_sell:
  "\<not> needsRecovery ls \<Longrightarrow> ladderInv (executeLadderSellStep cfg tick ls step s)"
  by (simp add: executeLadderSellStep_def Let_def skipLadderStep_def ladderInv_def recoveryInv_def)

lemma ladderInv_stopLoss:
  "ladderInv (executeLadderStopLoss clk cfg tick ls step s)"
  by (simp add: executeLadderStopLoss_def Let_def dateNow_def resetLadderState_def
      ladderInv_def recoveryInv_def)

lemma ladderInv_processLadderStateTick:
  assumes "ladderInv s"
  shows "ladderInv (processLadderStateTick clk cfg tick market steps s)"
proof (cases "ladderState s")
  case None
  then show ?thesis using assms by (simp add: processLadderStateTick_def)
next
  case (Some ls)
  let ?sl = "getOpenLadderShares ls > 0.01 \<and> getActiveStopLossStep ls steps \<noteq> None
             \<and> bestBid tick > 0
             \<and> bestBid tick \<le> LadderStep.stopLoss (the (getActiveStopLossStep ls steps))"
  let ?gate = "needsRecovery ls \<and>
                  \<not> (case List.find enabled steps of
                        None \<Rightarrow> False
                      | Some firstBuyStep \<Rightarrow>
                          bestAsk tick > 0 \<and> bestAsk tick > triggerPrice (buy firstBuyStep))"
  let ?ls1 = "if needsRecovery ls
              then ls\<lparr> needsRecovery := False, lastStepTime := PriceTick.timestamp tick \<rparr>
              else ls"
  show ?thesis
  proof (cases ?sl)
    case True
    then have "processLadderStateTick clk cfg tick market steps s
               = executeLadderStopLoss clk cfg tick ls (the (getActiveStopLossStep ls steps)) s"
      using Some by (simp add: processLadderStateTick_def Let_def)
    then show ?thesis by (simp add: ladderInv_stopLoss)
  next
    case nsl: False
    show ?thesis
    proof (cases "status ls \<noteq> Active \<or> ?gate")
      case True
      then have "processLadderStateTick clk cfg tick market steps s = s"
        using Some nsl by (auto simp add: processLadderStateTick_def Let_def)
      then show ?thesis using assms by simp
    next
      case False
      then have ng: "status ls = Active" "\<not> ?gate" by auto
      have nr: "\<not> needsRecovery (snd (getActiveStep ?ls1 steps))" using ng(2) by auto
      have c1: "\<not> status ls \<noteq> Active" using ng(1) by simp
      show ?thesis
        apply (simp only: processLadderStateTick_def processLadderStep_def Let_def Some
            option.case if_not_P [OF nsl] if_not_P [OF c1] if_not_P [OF ng(2)] case_prod_beta)
        using nr
        apply (auto split: option.splits StepPhase.splits
            simp: ladderInv_simps ladderInv_buy ladderInv_sell)
        done
    qed
  qed
qed

lemma executeExit_ladderState [simp]:
  "ladderState (executeExit cfg x ts reason s) = ladderState s"
  by (simp add: executeExit_def Let_def split: option.splits)

lemma closePositionAtExpiry_ladderState [simp]:
  "ladderState (closePositionAtExpiry cfg market s) = ladderState s"
  by (simp add: closePositionAtExpiry_def Let_def split: option.splits)

lemma checkEntry_ladderState [simp]:
  "ladderState (checkEntry cfg tick market s) = ladderState s"
  by (simp add: checkEntry_def executeEntry_def Let_def)

lemma checkStopLoss_ladderState [simp]:
  "ladderState (checkStopLoss cfg tick s) = ladderState s"
  by (simp add: checkStopLoss_def Let_def)

lemma ladderInv_closeLadderAtExpiry:
  "ladderInv (closeLadderAtExpiry cfg market s)"
  by (simp add: closeLadderAtExpiry_def Let_def ladderInv_def split: option.splits)

lemma ladderInv_processLadderTick:
  assumes "ladderInv s"
  shows "ladderInv (processLadderTick clk cfg tick market s)"
proof (cases "ladderState s")
  case (Some ls)
  then show ?thesis
    using assms ladderInv_processLadderStateTick [OF assms, of clk cfg tick market "ladderSteps cfg"]
    by (simp add: processLadderTick_def Let_def)
next
  case None
  have fresh: "\<not> needsRecovery ((initializeLadderState t tok sd sl e)
                  \<lparr> lastStepPrice := p, lastStepTime := q \<rparr>)" for t tok sd sl e p q
    by (simp add: initializeLadderState_def)
  show ?thesis
    using None assms
    by (auto simp add: processLadderTick_def Let_def dateNow_def ladderInv_buy [OF fresh]
        ladderInv_simps(2) [OF fresh] split: option.splits)
qed

lemma processTick_ladder:
  assumes "riskMode cfg = ''ladder''"
  shows "processTick clk cfg tick market s = processLadderTick clk cfg tick market s"
  unfolding processTick_def using assms by (rule if_P)

lemma processTick_normal:
  assumes "riskMode cfg \<noteq> ''ladder''"
  shows "processTick clk cfg tick market s =
      (case position s of
        Some p \<Rightarrow>
          (if SimulatedPosition.tokenId p = PriceTick.tokenId tick then
             (if bestBid tick \<ge> profitTarget cfg
              then executeExit cfg (profitTarget cfg) (PriceTick.timestamp tick) PROFIT_TARGET s
              else checkStopLoss cfg tick s)
           else s)
      | None \<Rightarrow> (if Engine.balance s \<ge> 1 then checkEntry cfg tick market s else s))"
  unfolding processTick_def using assms by (rule if_not_P)

lemma ladderInv_processTick:
  assumes "ladderInv s"
  shows "ladderInv (processTick clk cfg tick market s)"
proof (cases "riskMode cfg = ''ladder''")
  case True
  show ?thesis
    unfolding processTick_ladder [OF True] by (rule ladderInv_processLadderTick [OF assms])
next
  case False
  have "ladderState (processTick clk cfg tick market s) = ladderState s"
    unfolding processTick_normal [OF False] by (simp split: option.splits)
  then show ?thesis using assms by (simp add: ladderInv_def)
qed

lemma ladderInv_expirePositionMarket:
  assumes "ladderInv (fst st)"
  shows "ladderInv (fst (expirePositionMarket cfg mm tick st))"
proof -
  obtain s ex where st: "st = (s, ex)" by (cases st)
  have "ladderState (fst (expirePositionMarket cfg mm tick (s, ex))) = ladderState s"
    by (simp add: expirePositionMarket_def Let_def split: option.splits)
  then show ?thesis using assms unfolding st by (simp add: ladderInv_def)
qed

lemma ladderInv_expireLadderMarket:
  assumes "ladderInv (fst st)"
  shows "ladderInv (fst (expireLadderMarket cfg mm tick st))"
proof -
  obtain s ex where st: "st = (s, ex)" by (cases st)
  show ?thesis
    using assms unfolding st
    by (simp add: expireLadderMarket_def Let_def ladderInv_closeLadderAtExpiry
        split: option.splits)
qed

lemma ladderInv_runLoopBody:
  assumes "ladderInv (fst st)"
  shows "ladderInv (fst (runLoopBody clk cfg mm st tm))"
proof -
  obtain tick market where tm: "tm = (tick, market)" by (cases tm)
  obtain s2 ex2 where s2: "expireLadderMarket cfg mm tick (expirePositionMarket cfg mm tick st)
                            = (s2, ex2)"
    by (cases "expireLadderMarket cfg mm tick (expirePositionMarket cfg mm tick st)")
  have inv2: "ladderInv s2"
    using ladderInv_expireLadderMarket [OF ladderInv_expirePositionMarket [OF assms],
        of cfg mm tick cfg mm tick] s2 by simp
  let ?s3 = "case position s2 of
               None \<Rightarrow> s2
             | Some p \<Rightarrow> (if SimulatedPosition.marketSlug p = slug market
                          then closePositionAtExpiry cfg market s2 else s2)"
  have l3: "ladderState ?s3 = ladderState s2" by (simp split: option.splits)
  have inv3: "ladderInv ?s3" using inv2 l3 by (simp add: ladderInv_def)
  let ?s4 = "case ladderState ?s3 of
               None \<Rightarrow> ?s3
             | Some ls \<Rightarrow> (if LadderState.marketSlug ls = slug market
                           then closeLadderAtExpiry cfg market ?s3 else ?s3)"
  have inv4: "ladderInv ?s4"
    using inv3 by (cases "ladderState ?s3") (simp_all add: ladderInv_closeLadderAtExpiry)
  have cm: "ladderInv (s2\<lparr> currentMarket := Some market \<rparr>)"
    using inv2 by (simp add: ladderInv_def)
  have inv5: "ladderInv (processTick clk cfg tick market (s2\<lparr> currentMarket := Some market \<rparr>))"
    by (rule ladderInv_processTick [OF cm])
  have "fst (runLoopBody clk cfg mm st tm) = s2
        \<or> fst (runLoopBody clk cfg mm st tm) = ?s4
        \<or> fst (runLoopBody clk cfg mm st tm)
            = processTick clk cfg tick market (s2\<lparr> currentMarket := Some market \<rparr>)"
    unfolding tm runLoopBody_def prod.case s2 Let_def
    by (simp only: fst_conv if_distrib [of fst] if_cancel) (simp split: if_splits)
  with inv2 inv4 inv5 show ?thesis by metis
qed

lemma ladderInv_foldl:
  assumes "ladderInv (fst st)"
  shows "ladderInv (fst (foldl (runLoopBody clk cfg mm) st tms))"
  using assms
  by (induction tms arbitrary: st) (simp_all add: ladderInv_runLoopBody)






lemma getActiveStep_idem:
  assumes "getActiveStep ls steps = (Some st, ls')"
  shows "getActiveStep ls' steps = (Some st, ls')"
proof -
  from getActiveStep_firstActionable [of ls steps] assms
  obtain j where j: "j < length steps" "st = steps ! j" "actionable ls st"
    "ls' = ls\<lparr> currentStepIndex := j \<rparr>"
    unfolding firstActionableFrom_def by auto
  show ?thesis
    using j by (subst getActiveStep.simps) (simp add: Let_def actionable_def)
qed

lemma stoppedEngine_value:
  "stoppedEngine =
     (newEngine ladderConfig)
       \<lparr> Engine.balance := 65, nowCalls := 2, peakBalance := 100,
         currentMarket := Some emptyMarket,
         Engine.trades :=
           [\<lparr> BacktestTrade.marketSlug = ''btc-updown-15m-1'', BacktestTrade.tokenId = ''UP'',
              BacktestTrade.side = UP, BacktestTrade.entryPrice = 0.6, exitPrice = 0.39,
              BacktestTrade.shares = 100 / 0.6, BacktestTrade.entryTimestamp = 120000,
              exitTimestamp = 180000, exitReason = LADDER_STOP_LOSS, pnl = - 35,
              ladderStepId = Some ''step1'' \<rparr>],
         lastTrade := Some
            \<lparr> BacktestTrade.marketSlug = ''btc-updown-15m-1'', BacktestTrade.tokenId = ''UP'',
              BacktestTrade.side = UP, BacktestTrade.entryPrice = 0.6, exitPrice = 0.39,
              BacktestTrade.shares = 100 / 0.6, BacktestTrade.entryTimestamp = 120000,
              exitTimestamp = 180000, exitReason = LADDER_STOP_LOSS, pnl = - 35,
              ladderStepId = Some ''step1'' \<rparr>,
         Engine.equityCurve := [\<lparr> EquityPoint.timestamp = 180000, EquityPoint.balance = 65 \<rparr>],
         ladderState := Some
           ((initializeLadderState 0 ''UP'' UP ''btc-updown-15m-1'' 900000)
              \<lparr> needsRecovery := True \<rparr>) \<rparr>"
  by (simp add: engine_defs input_defs)

text \<open>
  C3. Let the replay loop have reached, in ladder mode and after any sequence of ticks from
  an engine without a ladder, a ladder whose \<open>needsRecovery\<close> flag is set, and let \<open>fs\<close> be
  the first enabled step (its buy trigger not negative). Then whatever tick is processed
  next, no buy fires: the balance and the trades are as before and the ladder holds no
  shares, is in the buy phase and has no completed or skipped step. The flag is cleared
  exactly when the tick is for the ladder's token and its ask is strictly above the buy
  trigger of \<open>fs\<close>; once it is cleared, the next step \<open>getActiveStep\<close> yields is \<open>fs\<close>, the
  ladder's first step.
\<close>

theorem recovery_gating_blocks_buys:
  assumes "s = fst (foldl (runLoopBody clk cfg mm) (s0, ex0) pre)"
    and "ladderState s0 = None"
    and "riskMode cfg = ''ladder''"
    and "ladderState s = Some ls" and "needsRecovery ls"
    and "List.find enabled (ladderSteps cfg) = Some fs"
    and "0 \<le> triggerPrice (buy fs)"
    and "r = processTick clk cfg tick market s"
  shows "Engine.balance r = Engine.balance s \<and> Engine.trades r = Engine.trades s
       \<and> (\<exists>ls'. ladderState r = Some ls'
              \<and> totalShares ls' = 0 \<and> totalSharesSold ls' = 0 \<and> currentStepPhase ls' = Buy
              \<and> completedSteps ls' = [] \<and> skippedSteps ls' = []
              \<and> (needsRecovery ls' \<longleftrightarrow>
                    \<not> (PriceTick.tokenId tick = LadderState.tokenId ls
                       \<and> bestAsk tick > triggerPrice (buy fs)))
              \<and> (\<not> needsRecovery ls' \<longrightarrow>
                    getActiveStep ls' (ladderSteps cfg) = (Some fs, ls')))"
proof -
  have "ladderInv (fst (s0, ex0))" using assms(2) by (simp add: ladderInv_simps)
  from ladderInv_foldl [OF this, of clk cfg mm pre] assms(1,4)
  have inv: "recoveryInv ls" by (simp add: ladderInv_def)
  then have f: "currentStepIndex ls = 0" "currentStepPhase ls = Buy" "completedSteps ls = []"
    "skippedSteps ls = []" "totalShares ls = 0" "totalSharesSold ls = 0"
    using assms(5) by (simp_all add: recoveryInv_def)
  have ne: "ladderSteps cfg \<noteq> []" using assms(6) by auto
  have r: "r = processLadderTick clk cfg tick market s"
    using assms(8) processTick_ladder [OF assms(3)] by simp
  show ?thesis
  proof (cases "PriceTick.tokenId tick = LadderState.tokenId ls")
    case False
    then have "r = s" using r assms(4) ne by (simp add: processLadderTick_def Let_def)
    with False assms(4,5) f show ?thesis by simp
  next
    case tok: True
    let ?ls1 = "ls\<lparr> needsRecovery := False, lastStepTime := PriceTick.timestamp tick \<rparr>"
    have r2: "r = processLadderStateTick clk cfg tick market (ladderSteps cfg) s"
      using r tok assms(4) ne by (simp add: processLadderTick_def Let_def)
    note rt = recovery_tick [OF assms(4,5) inv assms(6), of clk cfg tick market]
    show ?thesis
    proof (cases "bestAsk tick > triggerPrice (buy fs)")
      case False
      then have "r = s" using r2 rt by simp
      with False assms(4,5) f show ?thesis by simp
    next
      case True
      then have pos: "bestAsk tick > 0" using assms(7) by simp
      obtain o' ls2 where g: "getActiveStep ?ls1 (ladderSteps cfg) = (o', ls2)"
        by (cases "getActiveStep ?ls1 (ladderSteps cfg)")
      have "o' = Some fs"
        using getActiveStep_after_reset [of ?ls1 "ladderSteps cfg"] f assms(6) g by simp
      with g have g': "getActiveStep ?ls1 (ladderSteps cfg) = (Some fs, ls2)" by simp
      obtain j where j: "ls2 = ?ls1\<lparr> currentStepIndex := j \<rparr>"
        using getActiveStep_snd [of ?ls1 "ladderSteps cfg"] g by auto
      have rr: "r = s\<lparr> ladderState := Some ls2 \<rparr>"
        using r2 rt True pos g by simp
      have "getActiveStep ls2 (ladderSteps cfg) = (Some fs, ls2)"
        by (rule getActiveStep_idem [OF g'])
      with rr j f True tok show ?thesis by simp
    qed
  qed
qed

theorem recovery_gating_blocks_buys_witness:
  "ladderState (newEngine ladderConfig) = None \<and> riskMode ladderConfig = ''ladder''
   \<and> needsRecovery (the (ladderState stoppedEngine))
   \<and> map exitReason (Engine.trades stoppedEngine) = [LADDER_STOP_LOSS]
   \<and> List.find enabled (ladderSteps ladderConfig) = Some step1
   \<and> triggerPrice (buy step1) = 0.6
   \<and> bestAsk tickUnderTrigger = 0.59
   \<and> Engine.balance (processTick zeroClock ladderConfig tickUnderTrigger emptyMarket
         stoppedEngine) = Engine.balance stoppedEngine
   \<and> totalShares (the (ladderState (processTick zeroClock ladderConfig tickUnderTrigger
         emptyMarket stoppedEngine))) = 0
   \<and> needsRecovery (the (ladderState (processTick zeroClock ladderConfig tickUnderTrigger
         emptyMarket stoppedEngine)))
   \<and> bestAsk tickRecovered = 0.71
   \<and> \<not> needsRecovery (the (ladderState (processTick zeroClock ladderConfig tickRecovered
         emptyMarket stoppedEngine)))
   \<and> totalShares (the (ladderState (processTick zeroClock ladderConfig tickRecovered
         emptyMarket stoppedEngine))) = 0"
proof -
  define ls where "ls = (initializeLadderState 0 ''UP'' UP ''btc-updown-15m-1'' 900000)
              \<lparr> needsRecovery := True \<rparr>"
  have st: "ladderState stoppedEngine = Some ls"
    unfolding stoppedEngine_value ls_def by simp
  have h: "ladderState (newEngine ladderConfig) = None" "riskMode ladderConfig = ''ladder''"
    "needsRecovery ls" "List.find enabled (ladderSteps ladderConfig) = Some step1"
    "0 \<le> triggerPrice (buy step1)"
    by (simp_all add: ls_def input_defs newEngine_def)
  have v: "triggerPrice (buy step1) = 0.6" "bestAsk tickUnderTrigger = 0.59"
    "bestAsk tickRecovered = 0.71"
    "PriceTick.tokenId tickUnderTrigger = LadderState.tokenId ls"
    "PriceTick.tokenId tickRecovered = LadderState.tokenId ls"
    "map exitReason (Engine.trades stoppedEngine) = [LADDER_STOP_LOSS]"
    unfolding stoppedEngine_value
    by (simp_all add: ls_def input_defs initializeLadderState_def)
  have c: "\<not> bestAsk tickUnderTrigger > triggerPrice (buy step1)"
    "bestAsk tickRecovered > triggerPrice (buy step1)"
    unfolding v by simp_all
  note t1 = recovery_gating_blocks_buys [OF stoppedEngine_def h(1,2) st h(3,4,5) refl,
      of tickUnderTrigger emptyMarket]
  note t2 = recovery_gating_blocks_buys [OF stoppedEngine_def h(1,2) st h(3,4,5) refl,
      of tickRecovered emptyMarket]
  from t1 c(1) have a: "Engine.balance (processTick zeroClock ladderConfig tickUnderTrigger
         emptyMarket stoppedEngine) = Engine.balance stoppedEngine"
    "totalShares (the (ladderState (processTick zeroClock ladderConfig tickUnderTrigger
         emptyMarket stoppedEngine))) = 0"
    "needsRecovery (the (ladderState (processTick zeroClock ladderConfig tickUnderTrigger
         emptyMarket stoppedEngine)))"
    by auto
  from t2 c(2) v(5) have b: "\<not> needsRecovery (the (ladderState (processTick zeroClock
         ladderConfig tickRecovered emptyMarket stoppedEngine)))"
    "totalShares (the (ladderState (processTick zeroClock ladderConfig tickRecovered
         emptyMarket stoppedEngine))) = 0"
    by auto
  show ?thesis
    using h(1,2,4) a b v(1,2,3,6) h(3) unfolding st by simp
qed

section \<open>Replay determinism\<close>

lemma erase_fields [simp]:
  "Engine.balance (erase s) = Engine.balance s"
  "Engine.savedProfit (erase s) = Engine.savedProfit s"
  "position (erase s) = position s"
  "ladderMarketLocks (erase s) = ladderMarketLocks s"
  "Engine.trades (erase s) = Engine.trades s"
  "Engine.equityCurve (erase s) = Engine.equityCurve s"
  "peakBalance (erase s) = peakBalance s"
  "lastTrade (erase s) = lastTrade s"
  "ladderState (erase s) = map_option eraseLadder (ladderState s)"
  by (simp_all add: erase_def)

lemma erase_idem [simp]: "erase (erase s) = erase s"
  by (cases "ladderState s") (simp_all add: erase_def eraseLadder_def)

lemma eraseLadder_idem [simp]: "eraseLadder (eraseLadder ls) = eraseLadder ls"
  by (simp add: eraseLadder_def)

lemma erase_update [simp]:
  "erase (s\<lparr> Engine.balance := b \<rparr>) = (erase s)\<lparr> Engine.balance := b \<rparr>"
  "erase (s\<lparr> Engine.savedProfit := sp \<rparr>) = (erase s)\<lparr> Engine.savedProfit := sp \<rparr>"
  "erase (s\<lparr> position := p \<rparr>) = (erase s)\<lparr> position := p \<rparr>"
  "erase (s\<lparr> ladderMarketLocks := lk \<rparr>) = (erase s)\<lparr> ladderMarketLocks := lk \<rparr>"
  "erase (s\<lparr> Engine.trades := tr \<rparr>) = (erase s)\<lparr> Engine.trades := tr \<rparr>"
  "erase (s\<lparr> Engine.equityCurve := ec \<rparr>) = (erase s)\<lparr> Engine.equityCurve := ec \<rparr>"
  "erase (s\<lparr> peakBalance := pk \<rparr>) = (erase s)\<lparr> peakBalance := pk \<rparr>"
  "erase (s\<lparr> lastTrade := lt \<rparr>) = (erase s)\<lparr> lastTrade := lt \<rparr>"
  "erase (s\<lparr> currentMarket := cm \<rparr>) = erase s"
  "erase (s\<lparr> nowCalls := n \<rparr>) = erase s"
  "erase (s\<lparr> ladderState := l \<rparr>) = (erase s)\<lparr> ladderState := map_option eraseLadder l \<rparr>"
  by (simp_all add: erase_def)

lemma erase_checkCompoundLimit:
  "erase (checkCompoundLimit cfg s) = checkCompoundLimit cfg (erase s)"
  by (simp add: checkCompoundLimit_def)

lemma erase_recordLadderTrade:
  "erase (recordLadderTrade t s) = recordLadderTrade t (erase s)"
  by (simp add: recordLadderTrade_def Let_def)

lemma erase_executeExit:
  "erase (executeExit cfg x ts reason s) = executeExit cfg x ts reason (erase s)"
  by (cases "position s")
     (simp_all add: executeExit_def Let_def erase_checkCompoundLimit)

lemma erase_closePositionAtExpiry:
  "erase (closePositionAtExpiry cfg market s) = closePositionAtExpiry cfg market (erase s)"
  by (cases "position s") (simp_all add: closePositionAtExpiry_def Let_def erase_executeExit)

lemma erase_checkStopLoss:
  "erase (checkStopLoss cfg tick s) = checkStopLoss cfg tick (erase s)"
  by (simp add: checkStopLoss_def Let_def erase_executeExit)

lemma erase_checkEntry:
  "erase (checkEntry cfg tick market s) = checkEntry cfg tick market (erase s)"
  by (simp add: checkEntry_def executeEntry_def Let_def)

lemma eraseLadder_fields [simp]:
  "LadderState.tokenId (eraseLadder ls) = LadderState.tokenId ls"
  "LadderState.side (eraseLadder ls) = LadderState.side ls"
  "LadderState.marketSlug (eraseLadder ls) = LadderState.marketSlug ls"
  "marketEndDate (eraseLadder ls) = marketEndDate ls"
  "currentStepIndex (eraseLadder ls) = currentStepIndex ls"
  "currentStepPhase (eraseLadder ls) = currentStepPhase ls"
  "completedSteps (eraseLadder ls) = completedSteps ls"
  "skippedSteps (eraseLadder ls) = skippedSteps ls"
  "skippedReasons (eraseLadder ls) = skippedReasons ls"
  "totalShares (eraseLadder ls) = totalShares ls"
  "totalCostBasis (eraseLadder ls) = totalCostBasis ls"
  "averageEntryPrice (eraseLadder ls) = averageEntryPrice ls"
  "totalSharesSold (eraseLadder ls) = totalSharesSold ls"
  "totalSellProceeds (eraseLadder ls) = totalSellProceeds ls"
  "lastStepPrice (eraseLadder ls) = lastStepPrice ls"
  "needsRecovery (eraseLadder ls) = needsRecovery ls"
  "status (eraseLadder ls) = status ls"
  "\<not> needsRecovery ls \<Longrightarrow> lastStepTime (eraseLadder ls) = lastStepTime ls"
  by (simp_all add: eraseLadder_def)

lemma eraseLadder_update [simp]:
  "eraseLadder (ls\<lparr> currentStepIndex := i \<rparr>) = (eraseLadder ls)\<lparr> currentStepIndex := i \<rparr>"
  "eraseLadder (ls\<lparr> currentStepPhase := ph \<rparr>) = (eraseLadder ls)\<lparr> currentStepPhase := ph \<rparr>"
  "eraseLadder (ls\<lparr> completedSteps := cs \<rparr>) = (eraseLadder ls)\<lparr> completedSteps := cs \<rparr>"
  "eraseLadder (ls\<lparr> skippedSteps := ss \<rparr>) = (eraseLadder ls)\<lparr> skippedSteps := ss \<rparr>"
  "eraseLadder (ls\<lparr> skippedReasons := sr \<rparr>) = (eraseLadder ls)\<lparr> skippedReasons := sr \<rparr>"
  "eraseLadder (ls\<lparr> totalShares := a \<rparr>) = (eraseLadder ls)\<lparr> totalShares := a \<rparr>"
  "eraseLadder (ls\<lparr> totalCostBasis := b \<rparr>) = (eraseLadder ls)\<lparr> totalCostBasis := b \<rparr>"
  "eraseLadder (ls\<lparr> averageEntryPrice := c \<rparr>) = (eraseLadder ls)\<lparr> averageEntryPrice := c \<rparr>"
  "eraseLadder (ls\<lparr> totalSharesSold := d \<rparr>) = (eraseLadder ls)\<lparr> totalSharesSold := d \<rparr>"
  "eraseLadder (ls\<lparr> totalSellProceeds := e \<rparr>) = (eraseLadder ls)\<lparr> totalSellProceeds := e \<rparr>"
  "eraseLadder (ls\<lparr> lastStepPrice := p \<rparr>) = (eraseLadder ls)\<lparr> lastStepPrice := p \<rparr>"
  "eraseLadder (ls\<lparr> status := st \<rparr>) = (eraseLadder ls)\<lparr> status := st \<rparr>"
  "eraseLadder (ls\<lparr> ladderStartTime := t \<rparr>) = eraseLadder ls"
  by (simp_all add: eraseLadder_def)

lemma eraseLadder_lastStepTime:
  "\<not> needsRecovery ls \<Longrightarrow>
     eraseLadder (ls\<lparr> lastStepTime := t \<rparr>) = (eraseLadder ls)\<lparr> lastStepTime := t \<rparr>"
  "eraseLadder (ls\<lparr> needsRecovery := False, lastStepTime := t \<rparr>)
     = (eraseLadder ls)\<lparr> needsRecovery := False, lastStepTime := t \<rparr>"
  by (simp_all add: eraseLadder_def)

lemma actionable_eraseLadder [simp]:
  "actionable (eraseLadder ls) step = actionable ls step"
  by (simp add: actionable_def)

lemma getActiveStep_eraseLadder:
  "getActiveStep (eraseLadder ls) steps
     = (fst (getActiveStep ls steps), eraseLadder (snd (getActiveStep ls steps)))"
proof (induction ls steps rule: getActiveStep.induct)
  case (1 ls steps)
  show ?case
  proof (cases "currentStepIndex ls \<ge> length steps")
    case True
    then show ?thesis
      by (simp add: getActiveStep.simps [of ls steps] getActiveStep.simps [of "eraseLadder ls" steps])
  next
    case False
    show ?thesis
    proof (cases "actionable ls (steps ! currentStepIndex ls)")
      case True
      with False show ?thesis
        by (simp add: getActiveStep.simps [of ls steps]
            getActiveStep.simps [of "eraseLadder ls" steps] Let_def actionable_def)
    next
      case na: False
      let ?ls = "ls\<lparr> currentStepIndex := currentStepIndex ls + 1 \<rparr>"
      have rec: "getActiveStep ls steps = getActiveStep ?ls steps"
        using False na
        by (subst getActiveStep.simps) (auto simp: Let_def actionable_def)
      have rec': "getActiveStep (eraseLadder ls) steps = getActiveStep (eraseLadder ?ls) steps"
        using False na
        by (subst getActiveStep.simps) (auto simp: Let_def actionable_def)
      have IH: "getActiveStep (eraseLadder ?ls) steps
                = (fst (getActiveStep ?ls steps), eraseLadder (snd (getActiveStep ?ls steps)))"
        using False na "1.IH"(1)[OF False refl] "1.IH"(2)[OF False refl]
          "1.IH"(3)[OF False refl]
        unfolding actionable_def by blast
      show ?thesis unfolding rec rec' IH ..
    qed
  qed
qed

lemma stopLossScan_eraseLadder [simp]:
  "stopLossScan (eraseLadder ls) steps i = stopLossScan ls steps i"
proof (induction ls steps i rule: stopLossScan.induct)
  case (1 ls steps index)
  let ?ls = "eraseLadder ls"
  show ?case
  proof (cases "index < length steps")
    case False
    then show ?thesis
      by (simp add: stopLossScan.simps [of ?ls steps index] stopLossScan.simps [of ls steps index])
  next
    case True
    show ?thesis
    proof (cases "actionable ls (steps ! index)")
      case a: True
      with True show ?thesis
        by (simp add: stopLossScan.simps [of ?ls steps index]
            stopLossScan.simps [of ls steps index] Let_def actionable_def)
    next
      case na: False
      have "stopLossScan ?ls steps (index + 1) = stopLossScan ls steps (index + 1)"
        using True na "1.IH"(1)[OF True refl] "1.IH"(2)[OF True refl]
        unfolding actionable_def by blast
      with True na show ?thesis
        by (simp add: stopLossScan.simps [of ?ls steps index]
            stopLossScan.simps [of ls steps index] Let_def actionable_def)
    qed
  qed
qed

lemma getActiveStopLossStep_eraseLadder [simp]:
  "getActiveStopLossStep (eraseLadder ls) steps = getActiveStopLossStep ls steps"
  by (simp add: getActiveStopLossStep_def)

lemma getOpenLadderShares_eraseLadder [simp]:
  "getOpenLadderShares (eraseLadder ls) = getOpenLadderShares ls"
  by (simp add: getOpenLadderShares_def)

lemma calculateStepSize_eraseLadder [simp]:
  "calculateStepSize sd c (eraseLadder ls) b p = calculateStepSize sd c ls b p"
  by (simp add: calculateStepSize_def)



lemma eraseLadder_reset:
  "eraseLadder (resetLadderState now ls) = resetLadderState 0 (eraseLadder ls)"
  by (simp add: resetLadderState_def eraseLadder_def)

lemma eraseLadder_skip [simp]:
  "eraseLadder (skipLadderStep ls sid reason) = skipLadderStep (eraseLadder ls) sid reason"
  by (simp add: skipLadderStep_def)

lemma erase_buy:
  assumes "\<not> needsRecovery ls"
  shows "erase (executeLadderBuyStep cfg tick ls step s)
         = erase (executeLadderBuyStep cfg tick (eraseLadder ls) step (erase s))"
  using assms
  by (simp add: executeLadderBuyStep_def Let_def eraseLadder_lastStepTime skipLadderStep_def)

lemma erase_sell:
  assumes "\<not> needsRecovery ls"
  shows "erase (executeLadderSellStep cfg tick ls step s)
         = erase (executeLadderSellStep cfg tick (eraseLadder ls) step (erase s))"
  using assms
  by (simp add: executeLadderSellStep_def Let_def eraseLadder_lastStepTime skipLadderStep_def
      erase_checkCompoundLimit erase_recordLadderTrade)

lemma erase_stopLoss:
  assumes "\<not> needsRecovery ls"
  shows "erase (executeLadderStopLoss clk cfg tick ls step s)
         = erase (executeLadderStopLoss clk' cfg tick (eraseLadder ls) step (erase s))"
  using assms
  by (simp add: executeLadderStopLoss_def Let_def dateNow_def eraseLadder_reset
      erase_checkCompoundLimit erase_recordLadderTrade)

lemma erase_closeLadderAtExpiry:
  assumes "ladderInv s"
  shows "erase (closeLadderAtExpiry cfg market s)
         = erase (closeLadderAtExpiry cfg market (erase s))"
proof (cases "ladderState s")
  case None
  then show ?thesis by (simp add: closeLadderAtExpiry_def)
next
  case (Some ls)
  show ?thesis
  proof (cases "totalShares ls - totalSharesSold ls < 0.01")
    case True
    then show ?thesis using Some by (simp add: closeLadderAtExpiry_def Let_def)
  next
    case False
    then have nr: "\<not> needsRecovery ls"
      using assms Some by (auto simp: ladderInv_def recoveryInv_def)
    then show ?thesis
      using Some False
      by (simp add: closeLadderAtExpiry_def Let_def erase_checkCompoundLimit
          erase_recordLadderTrade)
  qed
qed

lemma erase_processLadderStep:
  assumes "\<not> needsRecovery ls1"
  shows "erase (processLadderStep cfg tick steps ls1 s)
         = erase (processLadderStep cfg tick steps (eraseLadder ls1) (erase s))"
proof -
  let ?ls2 = "snd (getActiveStep ls1 steps)"
  have nr: "\<not> needsRecovery ?ls2" using assms by simp
  show ?thesis
  proof (cases "fst (getActiveStep ls1 steps)")
    case None
    then show ?thesis
      by (simp add: processLadderStep_def getActiveStep_eraseLadder case_prod_beta Let_def)
  next
    case (Some step)
    show ?thesis
    proof (cases "currentStepPhase ?ls2")
      case Buy
      with Some show ?thesis
        using erase_buy [OF nr, of cfg tick step s]
        by (simp add: processLadderStep_def getActiveStep_eraseLadder case_prod_beta)
    next
      case Sell
      with Some show ?thesis
        using erase_sell [OF nr, of cfg tick step s]
        by (simp add: processLadderStep_def getActiveStep_eraseLadder case_prod_beta)
    qed
  qed
qed

lemma processLadderStateTick_cases:
  assumes "ladderState s = Some ls"
  shows "processLadderStateTick clk cfg tick market steps s =
     (if getOpenLadderShares ls > 0.01 \<and> getActiveStopLossStep ls steps \<noteq> None
          \<and> bestBid tick > 0
          \<and> bestBid tick \<le> LadderStep.stopLoss (the (getActiveStopLossStep ls steps))
      then executeLadderStopLoss clk cfg tick ls (the (getActiveStopLossStep ls steps)) s
      else if status ls \<noteq> Active then s
      else if needsRecovery ls \<and>
                  \<not> (case List.find enabled steps of
                        None \<Rightarrow> False
                      | Some firstBuyStep \<Rightarrow>
                          bestAsk tick > 0 \<and> bestAsk tick > triggerPrice (buy firstBuyStep))
      then s
      else processLadderStep cfg tick steps
                 (if needsRecovery ls
                  then ls\<lparr> needsRecovery := False,
                           lastStepTime := PriceTick.timestamp tick \<rparr>
                  else ls) s)"
  unfolding processLadderStateTick_def Let_def
  by (simp only: assms option.case)

lemma erase_processLadderStateTick:
  assumes "ladderInv s"
  shows "erase (processLadderStateTick clk cfg tick market steps s)
         = erase (processLadderStateTick clk' cfg tick market steps (erase s))"
proof (cases "ladderState s")
  case None
  then show ?thesis by (simp add: processLadderStateTick_def)
next
  case (Some ls)
  have e: "ladderState (erase s) = Some (eraseLadder ls)" using Some by simp
  let ?sl = "getOpenLadderShares ls > 0.01 \<and> getActiveStopLossStep ls steps \<noteq> None
             \<and> bestBid tick > 0
             \<and> bestBid tick \<le> LadderStep.stopLoss (the (getActiveStopLossStep ls steps))"
  let ?gate = "needsRecovery ls \<and>
                  \<not> (case List.find enabled steps of
                        None \<Rightarrow> False
                      | Some firstBuyStep \<Rightarrow>
                          bestAsk tick > 0 \<and> bestAsk tick > triggerPrice (buy firstBuyStep))"
  let ?ls1 = "if needsRecovery ls
              then ls\<lparr> needsRecovery := False, lastStepTime := PriceTick.timestamp tick \<rparr>
              else ls"
  have l: "processLadderStateTick clk cfg tick market steps s =
     (if ?sl then executeLadderStopLoss clk cfg tick ls (the (getActiveStopLossStep ls steps)) s
      else if status ls \<noteq> Active then s
      else if ?gate then s
      else processLadderStep cfg tick steps ?ls1 s)"
    by (rule processLadderStateTick_cases [OF Some])
  have ls1e: "(if needsRecovery ls
               then (eraseLadder ls)\<lparr> needsRecovery := False,
                                        lastStepTime := PriceTick.timestamp tick \<rparr>
               else eraseLadder ls) = eraseLadder ?ls1"
    by (simp add: eraseLadder_lastStepTime)
  have r: "processLadderStateTick clk' cfg tick market steps (erase s) =
     (if ?sl then executeLadderStopLoss clk' cfg tick (eraseLadder ls)
                    (the (getActiveStopLossStep ls steps)) (erase s)
      else if status ls \<noteq> Active then erase s
      else if ?gate then erase s
      else processLadderStep cfg tick steps (eraseLadder ?ls1) (erase s))"
    by (simp only: processLadderStateTick_cases [OF e] ls1e getOpenLadderShares_eraseLadder
        getActiveStopLossStep_eraseLadder eraseLadder_fields)
  show ?thesis
  proof (cases ?sl)
    case True
    then have "\<not> needsRecovery ls"
      using assms Some by (auto simp: ladderInv_def recoveryInv_def getOpenLadderShares_def)
    then have sl: "erase (executeLadderStopLoss clk cfg tick ls
                             (the (getActiveStopLossStep ls steps)) s)
                 = erase (executeLadderStopLoss clk' cfg tick (eraseLadder ls)
                             (the (getActiveStopLossStep ls steps)) (erase s))"
      by (rule erase_stopLoss)
    show ?thesis
      unfolding l r by (simp only: if_P [OF True] sl)
  next
    case nsl: False
    show ?thesis
    proof (cases "status ls \<noteq> Active \<or> ?gate")
      case True
      then show ?thesis
        unfolding l r by (simp only: if_not_P [OF nsl]) (auto simp del: erase_update)
    next
      case False
      then have c: "\<not> status ls \<noteq> Active" "\<not> ?gate" by auto
      have nr: "\<not> needsRecovery ?ls1" by simp
      show ?thesis
        unfolding l r
        by (simp only: if_not_P [OF nsl] if_not_P [OF c(1)] if_not_P [OF c(2)])
           (rule erase_processLadderStep [OF nr])
    qed
  qed
qed

lemma erase_create:
  fixes s :: Engine
  defines "mk \<equiv> \<lambda>t0 tok sd m e a ts.
             (initializeLadderState t0 tok sd m e)\<lparr> lastStepPrice := a, lastStepTime := ts \<rparr>"
  shows "erase (s\<lparr> nowCalls := n, ladderState := Some (mk t0 tok sd m e a ts) \<rparr>)
         = erase ((erase s)\<lparr> nowCalls := n', ladderState := Some (mk t1 tok sd m e a ts) \<rparr>)"
    and "erase (executeLadderBuyStep cfg tick (mk t0 tok sd m e a ts) step
                  (s\<lparr> nowCalls := n, ladderState := Some (mk t0 tok sd m e a ts) \<rparr>))
         = erase (executeLadderBuyStep cfg tick (mk t1 tok sd m e a ts) step
                  ((erase s)\<lparr> nowCalls := n', ladderState := Some (mk t1 tok sd m e a ts) \<rparr>))"
proof -
  let ?l0 = "mk t0 tok sd m e a ts" and ?l1 = "mk t1 tok sd m e a ts"
  let ?s0 = "s\<lparr> nowCalls := n, ladderState := Some ?l0 \<rparr>"
  let ?s1 = "(erase s)\<lparr> nowCalls := n', ladderState := Some ?l1 \<rparr>"
  have A: "eraseLadder ?l0 = eraseLadder ?l1"
    by (simp add: mk_def eraseLadder_def initializeLadderState_def)
  show B: "erase ?s0 = erase ?s1" by (simp add: A)
  have nr: "\<not> needsRecovery ?l0" "\<not> needsRecovery ?l1"
    by (simp_all add: mk_def initializeLadderState_def)
  have "erase (executeLadderBuyStep cfg tick ?l0 step ?s0)
        = erase (executeLadderBuyStep cfg tick (eraseLadder ?l0) step (erase ?s0))"
    by (rule erase_buy [OF nr(1)])
  also have "\<dots> = erase (executeLadderBuyStep cfg tick (eraseLadder ?l1) step (erase ?s1))"
    by (simp only: A B)
  also have "\<dots> = erase (executeLadderBuyStep cfg tick ?l1 step ?s1)"
    by (rule erase_buy [OF nr(2), symmetric])
  finally show "erase (executeLadderBuyStep cfg tick ?l0 step ?s0)
        = erase (executeLadderBuyStep cfg tick ?l1 step ?s1)" .
qed

lemma erase_processLadderTick:
  assumes "ladderInv s"
  shows "erase (processLadderTick clk cfg tick market s)
         = erase (processLadderTick clk' cfg tick market (erase s))"
proof (cases "ladderState s")
  case (Some ls)
  then show ?thesis
    using erase_processLadderStateTick [OF assms, of clk cfg tick market "ladderSteps cfg" clk']
    by (simp add: processLadderTick_def Let_def del: erase_update)
next
  case None
  then show ?thesis
    by (simp add: processLadderTick_def Let_def dateNow_def erase_create
        split: option.splits del: erase_update)
qed

lemma erase_processTick:
  assumes "ladderInv s"
  shows "erase (processTick clk cfg tick market s)
         = erase (processTick clk' cfg tick market (erase s))"
proof (cases "riskMode cfg = ''ladder''")
  case True
  then show ?thesis
    using erase_processLadderTick [OF assms] by (simp add: processTick_ladder)
next
  case False
  then show ?thesis
    by (simp add: processTick_normal erase_executeExit erase_checkStopLoss erase_checkEntry
        split: option.splits del: erase_update)
qed

lemma ladderInv_erase:
  assumes "ladderInv s"
  shows "ladderInv (erase s)"
  using assms
  by (cases "ladderState s") (simp_all add: ladderInv_def recoveryInv_def)

lemma erase_ladderSlug:
  assumes "erase a = erase b"
  shows "map_option LadderState.marketSlug (ladderState a)
         = map_option LadderState.marketSlug (ladderState b)"
proof -
  have "ladderState (erase a) = ladderState (erase b)" using assms by (rule arg_cong)
  then have "map_option LadderState.marketSlug (map_option eraseLadder (ladderState a))
           = map_option LadderState.marketSlug (map_option eraseLadder (ladderState b))"
    by simp
  then show ?thesis by (simp add: option.map_comp comp_def)
qed

lemma erase_position:
  assumes "erase a = erase b"
  shows "position a = position b"
proof -
  have "position (erase a) = position (erase b)" using assms by (rule arg_cong)
  then show ?thesis by simp
qed

lemma erasePair_simps [simp]:
  "erasePair (s, ex) = (erase s, ex)"
  "fst (erasePair st) = erase (fst st)"
  "snd (erasePair st) = snd st"
  by (simp_all add: erasePair_def)

lemma erasePair_expirePositionMarket:
  "erasePair (expirePositionMarket cfg mm tick st)
   = erasePair (expirePositionMarket cfg mm tick (erasePair st))"
proof -
  obtain s ex where st: "st = (s, ex)" by (cases st)
  have p: "\<And>m. position (closePositionAtExpiry cfg m (erase s))
              = position (closePositionAtExpiry cfg m s)"
    by (simp add: erase_closePositionAtExpiry [symmetric])
  show ?thesis
    unfolding st
    by (simp add: expirePositionMarket_def Let_def erase_closePositionAtExpiry p
        split: option.splits del: erase_update)
qed

lemma erasePair_expireLadderMarket:
  assumes "ladderInv (fst st)"
  shows "erasePair (expireLadderMarket cfg mm tick st)
         = erasePair (expireLadderMarket cfg mm tick (erasePair st))"
proof -
  obtain s ex where st: "st = (s, ex)" by (cases st)
  have inv: "ladderInv s" using assms st by simp
  have c: "\<And>m. erase (closeLadderAtExpiry cfg m s) = erase (closeLadderAtExpiry cfg m (erase s))"
    by (rule erase_closeLadderAtExpiry [OF inv])
  have g: "\<And>a d. (case ladderState a of None \<Rightarrow> d
                    | Some ls' \<Rightarrow> (if LadderState.marketSlug ls' \<noteq> []
                                  then LadderState.marketSlug ls' else d))
                 = (case map_option LadderState.marketSlug (ladderState a) of None \<Rightarrow> d
                    | Some x \<Rightarrow> (if x \<noteq> [] then x else d))"
    by (simp split: option.splits)
  have pick: "\<And>m d. (case ladderState (closeLadderAtExpiry cfg m s) of None \<Rightarrow> d
                    | Some ls' \<Rightarrow> (if LadderState.marketSlug ls' \<noteq> []
                                  then LadderState.marketSlug ls' else d))
               = (case ladderState (closeLadderAtExpiry cfg m (erase s)) of None \<Rightarrow> d
                    | Some ls' \<Rightarrow> (if LadderState.marketSlug ls' \<noteq> []
                                  then LadderState.marketSlug ls' else d))"
    by (simp only: g erase_ladderSlug [OF c])
  show ?thesis
  proof (cases "ladderState s")
    case None
    then show ?thesis unfolding st by (simp add: expireLadderMarket_def)
  next
    case (Some ls)
    show ?thesis
    proof (cases "mm (LadderState.marketSlug ls)")
      case None
      with Some show ?thesis unfolding st by (simp add: expireLadderMarket_def)
    next
      case (Some m)
      with \<open>ladderState s = Some ls\<close> show ?thesis
        unfolding st
        by (simp add: expireLadderMarket_def Let_def pick c del: erase_update)
    qed
  qed
qed

lemma erasePair_eq_iff:
  "erasePair st = erasePair st' \<longleftrightarrow> erase (fst st) = erase (fst st') \<and> snd st = snd st'"
  by (cases st, cases st') simp

lemma ladderInv_erasePair:
  assumes "ladderInv (fst st)"
  shows "ladderInv (fst (erasePair st))"
  using assms by (simp add: ladderInv_erase)

lemma erasePair_expiry:
  assumes "ladderInv (fst st)"
  shows "erasePair (expireLadderMarket cfg mm tick (expirePositionMarket cfg mm tick st))
         = erasePair (expireLadderMarket cfg mm tick
                        (expirePositionMarket cfg mm tick (erasePair st)))"
proof -
  let ?P = "expirePositionMarket cfg mm tick" and ?L = "expireLadderMarket cfg mm tick"
  have i1: "ladderInv (fst (?P st))"
    by (rule ladderInv_expirePositionMarket [OF assms])
  have i2: "ladderInv (fst (?P (erasePair st)))"
    by (rule ladderInv_expirePositionMarket [OF ladderInv_erasePair [OF assms]])
  have "erasePair (?L (?P st)) = erasePair (?L (erasePair (?P st)))"
    by (rule erasePair_expireLadderMarket [OF i1])
  also have "\<dots> = erasePair (?L (erasePair (?P (erasePair st))))"
    by (simp only: erasePair_expirePositionMarket [of cfg mm tick st])
  also have "\<dots> = erasePair (?L (?P (erasePair st)))"
    by (rule erasePair_expireLadderMarket [OF i2, symmetric])
  finally show ?thesis .
qed

lemma runLoopBody_afterExpiry:
  "runLoopBody clk cfg mm st (tick, market)
   = afterExpiry clk cfg tick market
       (expireLadderMarket cfg mm tick (expirePositionMarket cfg mm tick st))"
  by (simp add: runLoopBody_def afterExpiry_def)

lemma erase_closeIfPosition:
  "erase (case position s of None \<Rightarrow> s
          | Some p \<Rightarrow> (if SimulatedPosition.marketSlug p = x
                       then closePositionAtExpiry cfg market s else s))
   = (case position (erase s) of None \<Rightarrow> erase s
          | Some p \<Rightarrow> (if SimulatedPosition.marketSlug p = x
                       then closePositionAtExpiry cfg market (erase s) else erase s))"
  by (simp add: erase_closePositionAtExpiry split: option.splits del: erase_update)

lemma ladderState_closeIfPosition:
  "ladderState (case position s of None \<Rightarrow> s
          | Some p \<Rightarrow> (if SimulatedPosition.marketSlug p = x
                       then closePositionAtExpiry cfg market s else s)) = ladderState s"
  by (simp add: closePositionAtExpiry_def split: option.splits)

lemma erase_closeIfLadder:
  assumes "ladderInv s"
  shows "erase (case ladderState s of None \<Rightarrow> s
          | Some ls \<Rightarrow> (if LadderState.marketSlug ls = x
                        then closeLadderAtExpiry cfg market s else s))
   = erase (case ladderState (erase s) of None \<Rightarrow> erase s
          | Some ls \<Rightarrow> (if LadderState.marketSlug ls = x
                        then closeLadderAtExpiry cfg market (erase s) else erase s))"
  using erase_closeLadderAtExpiry [OF assms, of cfg market]
  by (cases "ladderState s") (simp_all del: erase_update)

lemma erasePair_afterExpiry:
  assumes "ladderInv (fst st)"
  shows "erasePair (afterExpiry clk cfg tick market st)
         = erasePair (afterExpiry clk' cfg tick market (erasePair st))"
proof -
  obtain s ex where st: "st = (s, ex)" by (cases st)
  have inv: "ladderInv s" using assms st by simp
  let ?cp = "\<lambda>s. (case position s of None \<Rightarrow> s
          | Some p \<Rightarrow> (if SimulatedPosition.marketSlug p = slug market
                       then closePositionAtExpiry cfg market s else s))"
  let ?cl = "\<lambda>s. (case ladderState s of None \<Rightarrow> s
          | Some ls \<Rightarrow> (if LadderState.marketSlug ls = slug market
                        then closeLadderAtExpiry cfg market s else s))"
  have i3: "ladderInv (?cp s)"
    using inv by (simp add: ladderInv_def ladderState_closeIfPosition)
  have "erase (?cl (?cp s)) = erase (?cl (erase (?cp s)))"
    by (rule erase_closeIfLadder [OF i3])
  also have "erase (?cp s) = ?cp (erase s)" by (rule erase_closeIfPosition)
  finally have close: "erase (?cl (?cp s)) = erase (?cl (?cp (erase s)))" .
  have inv': "ladderInv (s\<lparr> currentMarket := Some market \<rparr>)"
    using inv by (simp add: ladderInv_def)
  have tick: "erase (processTick clk cfg tick market (s\<lparr> currentMarket := Some market \<rparr>))
        = erase (processTick clk' cfg tick market ((erase s)\<lparr> currentMarket := Some market \<rparr>))"
  proof -
    have "erase (processTick clk cfg tick market (s\<lparr> currentMarket := Some market \<rparr>))
          = erase (processTick clk' cfg tick market (erase s))"
      using erase_processTick [OF inv', of clk cfg tick market clk'] by simp
    also have "\<dots> = erase (processTick clk' cfg tick market
                              ((erase s)\<lparr> currentMarket := Some market \<rparr>))"
    proof -
      have "ladderInv ((erase s)\<lparr> currentMarket := Some market \<rparr>)"
        using ladderInv_erase [OF inv] by (simp add: ladderInv_def)
      from erase_processTick [OF this, of clk' cfg tick market clk']
      show ?thesis by simp
    qed
    finally show ?thesis .
  qed
  show ?thesis
  proof (cases "slug market \<in> ex")
    case True
    then show ?thesis unfolding st by (simp add: afterExpiry_def)
  next
    case ne: False
    show ?thesis
    proof (cases "PriceTick.timestamp tick \<ge> endDate market")
      case True
      have "afterExpiry clk cfg tick market (s, ex) = (?cl (?cp s), insert (slug market) ex)"
        by (simp only: afterExpiry_def Let_def prod.case if_not_P [OF ne] if_P [OF True])
      moreover have "afterExpiry clk' cfg tick market (erase s, ex)
                     = (?cl (?cp (erase s)), insert (slug market) ex)"
        by (simp only: afterExpiry_def Let_def prod.case if_not_P [OF ne] if_P [OF True])
      ultimately show ?thesis
        unfolding st by (simp only: erasePair_simps close)
    next
      case False
      with ne show ?thesis
        unfolding st by (simp add: afterExpiry_def tick del: erase_update)
    qed
  qed
qed

lemma erasePair_runLoopBody:
  assumes "ladderInv (fst st)"
  shows "erasePair (runLoopBody clk cfg mm st tm)
         = erasePair (runLoopBody clk' cfg mm (erasePair st) tm)"
proof -
  obtain tick market where tm: "tm = (tick, market)" by (cases tm)
  let ?E = "\<lambda>st. expireLadderMarket cfg mm tick (expirePositionMarket cfg mm tick st)"
  have i1: "ladderInv (fst (?E st))"
    by (intro ladderInv_expireLadderMarket ladderInv_expirePositionMarket assms)
  have i2: "ladderInv (fst (?E (erasePair st)))"
    by (intro ladderInv_expireLadderMarket ladderInv_expirePositionMarket
        ladderInv_erasePair assms)
  have "erasePair (afterExpiry clk cfg tick market (?E st))
        = erasePair (afterExpiry clk' cfg tick market (erasePair (?E st)))"
    by (rule erasePair_afterExpiry [OF i1])
  also have "\<dots> = erasePair (afterExpiry clk' cfg tick market (erasePair (?E (erasePair st))))"
    by (simp only: erasePair_expiry [OF assms])
  also have "\<dots> = erasePair (afterExpiry clk' cfg tick market (?E (erasePair st)))"
    by (rule erasePair_afterExpiry [OF i2, symmetric])
  finally show ?thesis unfolding tm runLoopBody_afterExpiry .
qed

lemma erasePair_foldl:
  assumes "ladderInv (fst st)"
  shows "erasePair (foldl (runLoopBody clk cfg mm) st tms)
         = erasePair (foldl (runLoopBody clk' cfg mm) (erasePair st) tms)"
  using assms
proof (induction tms arbitrary: st clk)
  case Nil
  show ?case by (simp add: erasePair_def)
next
  case (Cons tm tms)
  let ?F = "runLoopBody clk cfg mm" and ?F' = "runLoopBody clk' cfg mm"
  have i1: "ladderInv (fst (?F st tm))"
    by (rule ladderInv_runLoopBody [OF Cons.prems])
  have i2: "ladderInv (fst (?F' (erasePair st) tm))"
    by (rule ladderInv_runLoopBody [OF ladderInv_erasePair [OF Cons.prems]])
  have "erasePair (foldl ?F (?F st tm) tms) = erasePair (foldl ?F' (erasePair (?F st tm)) tms)"
    by (rule Cons.IH [OF i1])
  also have "\<dots> = erasePair (foldl ?F' (erasePair (?F' (erasePair st) tm)) tms)"
    by (simp only: erasePair_runLoopBody [OF Cons.prems, of clk cfg mm tm clk'])
  also have "\<dots> = erasePair (foldl ?F' (?F' (erasePair st) tm) tms)"
    by (rule Cons.IH [OF i2, symmetric])
  finally show ?case by simp
qed

lemma erase_runEngine:
  "erase (runEngine clk cfg markets s0) = erase (runEngine clk' cfg markets s0')"
proof -
  let ?r = "\<lambda>s0. s0\<lparr> Engine.balance := startingBalance cfg,
                  Engine.savedProfit := 0,
                  position := None,
                  ladderState := None,
                  ladderMarketLocks := {},
                  Engine.trades := [],
                  Engine.equityCurve := [],
                  peakBalance := startingBalance cfg,
                  lastTrade := None \<rparr>"
  let ?mm = "marketMapOf markets"
  let ?A = "foldl (runLoopBody clk cfg ?mm) (?r s0, {}) (allTicksSorted markets)"
  let ?B = "foldl (runLoopBody clk' cfg ?mm) (?r s0', {}) (allTicksSorted markets)"
  let ?cp = "\<lambda>s1. (case position s1 of
                  None \<Rightarrow> s1
                | Some p \<Rightarrow>
                   (case ?mm (SimulatedPosition.marketSlug p) of
                      None \<Rightarrow> s1
                    | Some market \<Rightarrow> closePositionAtExpiry cfg market s1))"
  let ?cl = "\<lambda>s2. (case ladderState s2 of
            None \<Rightarrow> s2
          | Some ls \<Rightarrow>
             (case ?mm (LadderState.marketSlug ls) of
                None \<Rightarrow> s2
              | Some market \<Rightarrow> closeLadderAtExpiry cfg market s2))"
  have r: "erase (?r s0) = erase (?r s0')"
    by (cases s0, cases s0') (simp add: erase_def)
  have i0: "ladderInv (fst (?r s0, {}))" "ladderInv (fst (?r s0', {}))"
    by (simp_all add: ladderInv_def)
  have "erasePair ?A = erasePair (foldl (runLoopBody clk' cfg ?mm) (erasePair (?r s0, {}))
                                   (allTicksSorted markets))"
    by (rule erasePair_foldl [OF i0(1)])
  also have "erasePair (?r s0, {}) = erasePair (?r s0', {})"
    using r by (simp only: erasePair_simps)
  also have "erasePair (foldl (runLoopBody clk' cfg ?mm) (erasePair (?r s0', {}))
                                   (allTicksSorted markets)) = erasePair ?B"
    by (rule erasePair_foldl [OF i0(2), symmetric])
  finally have AB: "erase (fst ?A) = erase (fst ?B)"
    by (simp add: erasePair_eq_iff)
  have iA: "ladderInv (fst ?A)" by (rule ladderInv_foldl [OF i0(1)])
  have iB: "ladderInv (fst ?B)" by (rule ladderInv_foldl [OF i0(2)])
  have cp: "\<And>s. erase (?cp s) = ?cp (erase s)"
    by (simp add: erase_closePositionAtExpiry split: option.splits del: erase_update)
  have cpl: "\<And>s. ladderState (?cp s) = ladderState s"
    by (simp add: closePositionAtExpiry_def split: option.splits)
  have cl: "\<And>s. ladderInv s \<Longrightarrow> erase (?cl s) = erase (?cl (erase s))"
  proof -
    fix s :: Engine
    assume inv: "ladderInv s"
    show "erase (?cl s) = erase (?cl (erase s))"
      using erase_closeLadderAtExpiry [OF inv, of cfg]
      by (cases "ladderState s") (simp_all split: option.splits del: erase_update)
  qed
  have iA': "ladderInv (?cp (fst ?A))" using iA by (simp add: ladderInv_def cpl)
  have iB': "ladderInv (?cp (fst ?B))" using iB by (simp add: ladderInv_def cpl)
  have "erase (?cl (?cp (fst ?A))) = erase (?cl (erase (?cp (fst ?A))))"
    by (rule cl [OF iA'])
  also have "erase (?cp (fst ?A)) = erase (?cp (fst ?B))"
    by (simp only: cp AB)
  also have "erase (?cl (erase (?cp (fst ?B)))) = erase (?cl (?cp (fst ?B)))"
    by (rule cl [OF iB', symmetric])
  finally have fin: "erase (?cl (?cp (fst ?A))) = erase (?cl (?cp (fst ?B)))" .
  have "runEngine clk cfg markets s0 = ?cl (?cp (fst ?A))"
    by (simp only: runEngine_def Let_def case_prod_beta)
  moreover have "runEngine clk' cfg markets s0' = ?cl (?cp (fst ?B))"
    by (simp only: runEngine_def Let_def case_prod_beta)
  ultimately show ?thesis using fin by (simp only:)
qed

lemma erase_result:
  assumes "erase a = erase b"
  shows "Engine.trades a = Engine.trades b" "Engine.equityCurve a = Engine.equityCurve b"
        "Engine.savedProfit a = Engine.savedProfit b" "Engine.balance a = Engine.balance b"
proof -
  have "Engine.trades (erase a) = Engine.trades (erase b)"
       "Engine.equityCurve (erase a) = Engine.equityCurve (erase b)"
       "Engine.savedProfit (erase a) = Engine.savedProfit (erase b)"
       "Engine.balance (erase a) = Engine.balance (erase b)"
    by (simp_all only: assms)
  then show "Engine.trades a = Engine.trades b" "Engine.equityCurve a = Engine.equityCurve b"
        "Engine.savedProfit a = Engine.savedProfit b" "Engine.balance a = Engine.balance b"
    by simp_all
qed

lemma sorted_allTicksSorted:
  "sorted (map (\<lambda>tm. PriceTick.timestamp (fst tm)) (allTicksSorted markets))"
  unfolding allTicksSorted_def by (rule sorted_sort_key)

lemma stable_allTicksSorted:
  "filter (\<lambda>tm. PriceTick.timestamp (fst tm) = k) (allTicksSorted markets)
   = filter (\<lambda>tm. PriceTick.timestamp (fst tm) = k) (collectTicks markets)"
  unfolding allTicksSorted_def by (rule sort_key_stable)

text \<open>
  C1. The result of \<open>run\<close> (trades, metrics, equity and drawdown curves, saved profit and
  final balance) depends on the configuration and the markets only: not on what the clock
  returns, and not on the state in which an earlier run left the engine; so a second run on
  the same engine returns what the first did. The ticks of all markets are processed as one
  sequence in non-decreasing order of timestamp, ticks with equal timestamps in the order in
  which the markets list them.
\<close>

theorem replay_deterministic:
  "fst (run clk cfg markets s0) = fst (run clk' cfg markets s0')
   \<and> fst (run clk' cfg markets (snd (run clk cfg markets s0))) = fst (run clk cfg markets s0)
   \<and> runBacktest clk cfg markets = runBacktest clk' cfg markets
   \<and> sorted (map (\<lambda>tm. PriceTick.timestamp (fst tm)) (allTicksSorted markets))
   \<and> filter (\<lambda>tm. PriceTick.timestamp (fst tm) = k) (allTicksSorted markets)
       = filter (\<lambda>tm. PriceTick.timestamp (fst tm) = k) (collectTicks markets)"
proof -
  have "fst (run c cfg markets a) = fst (run c' cfg markets b)" for a b c c'
    using erase_result [OF erase_runEngine [of c cfg markets a c' b]]
    by (simp add: run_def Let_def)
  then show ?thesis
    unfolding runBacktest_def
    using sorted_allTicksSorted [of markets] stable_allTicksSorted [of k markets]
    by blast
qed

section \<open>Exit guard of the live bot\<close>

lemma pendingExits_table [simp]:
  "pendingExits (closeTrade i x st w) = pendingExits w"
  "pendingExits (snd (insertTrade trade w)) = pendingExits w"
  by (simp_all add: closeTrade_def getTradeById_def insertTrade_def Let_def split: option.splits)

lemma pendingExits_helpers [simp]:
  "pendingExits (checkCompoundLimit_bot cfg w) = pendingExits w"
  "pendingExits (clearLadderMarketLock m w) = pendingExits w"
  "pendingExits (updateLadder l f w) = pendingExits w"
  "pendingExits (syncLadderPosition tok l w) = pendingExits w"
  "pendingExits (releaseExit tok w) = pendingExits w - {tok}"
  by (simp_all add: checkCompoundLimit_bot_def clearLadderMarketLock_def updateLadder_def
      syncLadderPosition_def releaseExit_def Let_def split: option.splits)

lemma pendingExits_closeAllOpenLadderTrades [simp]:
  "pendingExits (closeAllOpenLadderTrades l x st w) = pendingExits w"
proof -
  have "pendingExits (foldl (\<lambda>w' i. case getTradeById i w' of
                                None \<Rightarrow> w'
                              | Some trade \<Rightarrow>
                                  (if Trade.status trade \<noteq> OPEN then w'
                                   else closeTrade i x st w')) w ids) = pendingExits w" for ids
    by (induction ids arbitrary: w) (simp_all split: option.splits)
  then show ?thesis by (simp add: closeAllOpenLadderTrades_def Let_def)
qed

lemma pendingExits_closeLadderTradesForSell_body:
  "pendingExits (fst (closeLadderTradesForSell_body upd x st acc i)) = pendingExits (fst acc)"
proof -
  obtain w r ids where acc: "acc = (w, r, ids)" by (cases acc)
  show ?thesis
    unfolding acc
    by (simp add: closeLadderTradesForSell_body_def Let_def case_prod_beta
        split: option.splits)
qed

lemma pendingExits_closeLadderTradesForSell [simp]:
  "pendingExits (closeLadderTradesForSell upd l n x st w) = pendingExits w"
proof -
  have "pendingExits (fst (foldl (closeLadderTradesForSell_body upd x st) acc ids))
        = pendingExits (fst acc)" for acc ids
    by (induction ids arbitrary: acc) (simp_all add: pendingExits_closeLadderTradesForSell_body)
  from this [of "(w, n, [])"] show ?thesis
    by (simp add: closeLadderTradesForSell_def case_prod_beta)
qed

lemma keepsGuard_simps [simp]:
  "keepsGuard tok w (w', Awaiting t)
     \<longleftrightarrow> suspensionToken t = tok \<and> pendingExits w' = insert tok (pendingExits w)"
  "keepsGuard tok w (w', Done) \<longleftrightarrow> pendingExits w' = pendingExits w - {tok}"
  "keepsGuard tok w (w', Rejected) \<longleftrightarrow> pendingExits w' = pendingExits w - {tok}"
  by (simp_all add: keepsGuard_def)

lemma keepsGuard_cong:
  assumes "pendingExits w2 = pendingExits w"
  shows "keepsGuard tok w2 r = keepsGuard tok w r"
  unfolding keepsGuard_def assms by (rule refl)



lemma executeLadderSellStep_completed_guard:
  "pendingExits (fst (executeLadderSellStep_completed now tok l step bid w)) = pendingExits w - {tok}"
  "snd (executeLadderSellStep_completed now tok l step bid w) = Done"
  by (simp_all add: executeLadderSellStep_completed_def Let_def)

lemma executeLadderStopLoss_reset_guard:
  "pendingExits (fst (executeLadderStopLoss_reset now tok l w)) = pendingExits w - {tok}"
  "snd (executeLadderStopLoss_reset now tok l w) = Done"
  by (simp_all add: executeLadderStopLoss_reset_def Let_def)

lemma keepsGuard_tail [simp]:
  "keepsGuard tok w (executeLadderSellStep_completed now tok l step bid w2)
     \<longleftrightarrow> pendingExits w2 - {tok} = pendingExits w - {tok}"
  "keepsGuard tok w (executeLadderStopLoss_reset now tok l w2)
     \<longleftrightarrow> pendingExits w2 - {tok} = pendingExits w - {tok}"
  by (simp_all add: keepsGuard_def executeLadderSellStep_completed_guard
      executeLadderStopLoss_reset_guard)














end
